theory Spec2Isabelle
  imports Main
begin

section \<open>The off-chain engine (src/services/escrow/escrow.js)\<close>

text \<open>
  The engine keeps two SQLite tables, \<open>escrows\<close> and \<open>escrow_events\<close>. A table is a
  list of rows in insertion order. Every function of the engine reads the clock; the
  reading is the argument \<open>now\<close>, in milliseconds since the epoch as \<open>Date.now()\<close>
  returns it. SQLite's \<open>datetime('now')\<close> has a resolution of one second, and the
  columns \<open>created_at\<close> and \<open>updated_at\<close> hold it as a number of seconds.

  The amount is the number that the request gives; the engine stores it and does no
  arithmetic on it. The column \<open>deadline\<close> holds an instant in milliseconds, which
  the engine writes as ISO 8601 text; \<open>JIso\<close> is that text inside the data of an event.
  Of the object that a function returns, \<open>response\<close> keeps the identifier, the status
  and the message; the hints for the next step are constant strings.
\<close>

datatype json = JNull | JStr string | JNum int | JIso int

record escrow_row =
  esc_id :: string
  buyer_address :: string
  seller_address :: string
  amount_usdc :: int
  service_description :: string
  acceptance_criteria :: "string option"
  deadline :: int
  status :: string
  deposit_tx :: "string option"
  release_tx :: "string option"
  refund_tx :: "string option"
  dispute_reason :: "string option"
  dispute_evidence :: "string option"
  resolution :: "string option"
  created_at :: int
  updated_at :: int

record event_row =
  ev_id :: nat
  escrow_id :: string
  event_type :: string
  actor :: string
  data :: "(string \<times> json) list"
  ev_created_at :: int

record store =
  escrows :: "escrow_row list"
  escrow_events :: "event_row list"

text \<open>
  A thrown \<open>Error\<close> is a value; the template strings of the messages
  (\<open>Cannot fund: status is ${esc.status}\<close>) keep their hole as an argument.
  \<open>SqliteConstraint\<close> is the failure of an INSERT on the primary key.
\<close>

datatype js_error =
    EscrowNotFound
  | CannotFund string
  | CannotDeliver string
  | CannotAccept string
  | CannotDispute string
  | CannotResolve string
  | SqliteConstraint

datatype message =
    NoMessage
  | EscrowFunded
  | DeliveryRecorded
  | PaymentReleasedToSeller int
  | DisputeFiled
  | RefundToBuyer int

record response =
  r_id :: string
  r_status :: string
  r_message :: message

definition empty_store :: store where
  "empty_store = \<lparr>escrows = [], escrow_events = []\<rparr>"

definition sql_now :: "int \<Rightarrow> int" where
  \<comment> \<open>\<open>datetime('now')\<close>: the clock in whole seconds\<close>
  "sql_now now = now div 1000"

text \<open>
  The column \<open>deadline\<close> holds the text that \<open>toISOString()\<close> makes of the instant,
  \<open>YYYY-MM-DDTHH:MM:SS.sssZ\<close>, and the sweeper compares it with the text of
  \<open>datetime('now')\<close>, \<open>YYYY-MM-DD HH:MM:SS\<close>. SQLite compares two texts byte by
  byte. The first ten bytes are the calendar day (UTC) of each side, and they order as
  the days do; on the same day the eleventh byte decides, and \<open>T\<close> is above the blank.
  So the stored deadline is below \<open>datetime('now')\<close> exactly when its day is an
  earlier day. The model holds the deadline as the instant (in milliseconds) and the
  SQL clock in seconds, for years 0000 to 9999.
\<close>

definition iso_text_lt_datetime :: "int \<Rightarrow> int \<Rightarrow> bool" where
  "iso_text_lt_datetime deadline_ms now_s = (deadline_ms div 86400000 < now_s div 86400)"

definition getEscrow :: "string \<Rightarrow> store \<Rightarrow> escrow_row option" where
  "getEscrow escrowId st = find (\<lambda>r. esc_id r = escrowId) (escrows st)"

definition update_where_id :: "string \<Rightarrow> (escrow_row \<Rightarrow> escrow_row) \<Rightarrow> store \<Rightarrow> store" where
  \<comment> \<open>\<open>UPDATE escrows SET ... WHERE id = ?\<close>\<close>
  "update_where_id escrowId f st =
     st\<lparr>escrows := map (\<lambda>r. if esc_id r = escrowId then f r else r) (escrows st)\<rparr>"

definition logEvent ::
  "int \<Rightarrow> string \<Rightarrow> string \<Rightarrow> string \<Rightarrow> (string \<times> json) list \<Rightarrow> store \<Rightarrow> store" where
  "logEvent now escrowId eventType actr dat st =
     st\<lparr>escrow_events := escrow_events st @
        [\<lparr>ev_id = Suc (length (escrow_events st)), escrow_id = escrowId,
          event_type = eventType, actor = actr, data = dat,
          ev_created_at = sql_now now\<rparr>]\<rparr>"

definition opt_json :: "string option \<Rightarrow> json" where
  "opt_json v = (case v of None \<Rightarrow> JNull | Some s \<Rightarrow> JStr s)"

text \<open>
  \<open>createEscrow\<close>: the identifier is \<open>esc_\<close> followed by 24 random hexadecimal
  digits; the argument \<open>new_id\<close> is that string. The function checks none of its
  arguments.
\<close>

definition createEscrow ::
  "int \<Rightarrow> string \<Rightarrow> string \<Rightarrow> string \<Rightarrow> int \<Rightarrow> string \<Rightarrow> string option \<Rightarrow> int \<Rightarrow> store
     \<Rightarrow> (js_error + response) \<times> store" where
  "createEscrow now new_id buyerAddress sellerAddress amountUsdc serviceDescription
       acceptanceCriteria deadlineHours st =
     (let dl = now + deadlineHours * 3600 * 1000 in
      if new_id \<in> set (map esc_id (escrows st)) then (Inl SqliteConstraint, st)
      else
        let st1 = st\<lparr>escrows := escrows st @
              [\<lparr>esc_id = new_id, buyer_address = buyerAddress, seller_address = sellerAddress,
                amount_usdc = amountUsdc, service_description = serviceDescription,
                acceptance_criteria = acceptanceCriteria, deadline = dl,
                status = ''created'', deposit_tx = None, release_tx = None, refund_tx = None,
                dispute_reason = None, dispute_evidence = None, resolution = None,
                created_at = sql_now now, updated_at = sql_now now\<rparr>]\<rparr>;
            st2 = logEvent now new_id ''created'' buyerAddress
                    [(''amountUsdc'', JNum amountUsdc), (''deadline'', JIso dl)] st1
        in (Inr \<lparr>r_id = new_id, r_status = ''created'', r_message = NoMessage\<rparr>, st2))"

definition fundEscrow ::
  "int \<Rightarrow> string \<Rightarrow> string option \<Rightarrow> store \<Rightarrow> (js_error + response) \<times> store" where
  "fundEscrow now escrowId depositTxHash st =
     (case getEscrow escrowId st of
        None \<Rightarrow> (Inl EscrowNotFound, st)
      | Some esc \<Rightarrow>
          if status esc \<noteq> ''created'' then (Inl (CannotFund (status esc)), st)
          else
            let st1 = update_where_id escrowId
                        (\<lambda>r. r\<lparr>status := ''funded'', deposit_tx := depositTxHash,
                                updated_at := sql_now now\<rparr>) st;
                st2 = logEvent now escrowId ''funded'' (buyer_address esc)
                        [(''depositTxHash'', opt_json depositTxHash)] st1
            in (Inr \<lparr>r_id = escrowId, r_status = ''funded'', r_message = EscrowFunded\<rparr>, st2))"

definition deliverEscrow ::
  "int \<Rightarrow> string \<Rightarrow> string option \<Rightarrow> store \<Rightarrow> (js_error + response) \<times> store" where
  "deliverEscrow now escrowId deliveryProof st =
     (case getEscrow escrowId st of
        None \<Rightarrow> (Inl EscrowNotFound, st)
      | Some esc \<Rightarrow>
          if status esc \<noteq> ''funded'' then (Inl (CannotDeliver (status esc)), st)
          else
            let st1 = update_where_id escrowId
                        (\<lambda>r. r\<lparr>status := ''delivered'', updated_at := sql_now now\<rparr>) st;
                st2 = logEvent now escrowId ''delivered'' (seller_address esc)
                        [(''proof'', opt_json deliveryProof)] st1
            in (Inr \<lparr>r_id = escrowId, r_status = ''delivered'', r_message = DeliveryRecorded\<rparr>,
                st2))"

definition acceptEscrow :: "int \<Rightarrow> string \<Rightarrow> store \<Rightarrow> (js_error + response) \<times> store" where
  "acceptEscrow now escrowId st =
     (case getEscrow escrowId st of
        None \<Rightarrow> (Inl EscrowNotFound, st)
      | Some esc \<Rightarrow>
          if status esc \<noteq> ''delivered'' then (Inl (CannotAccept (status esc)), st)
          else
            let st1 = update_where_id escrowId
                        (\<lambda>r. r\<lparr>status := ''completed'', updated_at := sql_now now\<rparr>) st;
                st2 = logEvent now escrowId ''completed'' (buyer_address esc)
                        [(''released_to'', JStr (seller_address esc))] st1
            in (Inr \<lparr>r_id = escrowId, r_status = ''completed'',
                     r_message = PaymentReleasedToSeller (amount_usdc esc)\<rparr>, st2))"

definition disputeEscrow ::
  "int \<Rightarrow> string \<Rightarrow> string \<Rightarrow> string \<Rightarrow> string option \<Rightarrow> store
     \<Rightarrow> (js_error + response) \<times> store" where
  "disputeEscrow now escrowId disputerAddress reason evidence st =
     (case getEscrow escrowId st of
        None \<Rightarrow> (Inl EscrowNotFound, st)
      | Some esc \<Rightarrow>
          if status esc \<notin> set [''funded'', ''delivered'']
          then (Inl (CannotDispute (status esc)), st)
          else
            let st1 = update_where_id escrowId
                        (\<lambda>r. r\<lparr>status := ''disputed'', dispute_reason := Some reason,
                                dispute_evidence := evidence, updated_at := sql_now now\<rparr>) st;
                st2 = logEvent now escrowId ''disputed'' disputerAddress
                        [(''reason'', JStr reason), (''evidence'', opt_json evidence)] st1
            in (Inr \<lparr>r_id = escrowId, r_status = ''disputed'', r_message = DisputeFiled\<rparr>, st2))"

definition resolveDispute ::
  "int \<Rightarrow> string \<Rightarrow> string \<Rightarrow> string \<Rightarrow> store \<Rightarrow> (js_error + response) \<times> store" where
  "resolveDispute now escrowId resolutn winner st =
     (case getEscrow escrowId st of
        None \<Rightarrow> (Inl EscrowNotFound, st)
      | Some esc \<Rightarrow>
          if status esc \<noteq> ''disputed'' then (Inl (CannotResolve (status esc)), st)
          else
            let newStatus = (if winner = ''buyer'' then ''refunded'' else ''completed'');
                st1 = update_where_id escrowId
                        (\<lambda>r. r\<lparr>status := newStatus, resolution := Some resolutn,
                                updated_at := sql_now now\<rparr>) st;
                st2 = logEvent now escrowId ''resolved'' ''trustlayer''
                        [(''resolution'', JStr resolutn), (''winner'', JStr winner)] st1
            in (Inr \<lparr>r_id = escrowId, r_status = newStatus,
                     r_message = (if winner = ''buyer'' then RefundToBuyer (amount_usdc esc)
                                  else PaymentReleasedToSeller (amount_usdc esc))\<rparr>, st2))"

text \<open>
  The sweeper. Its first loop calls \<open>acceptEscrow\<close>, which can throw; the exception
  leaves the loop and the function, and what was written before it stays written.
\<close>

fun autoReleaseLoop :: "int \<Rightarrow> escrow_row list \<Rightarrow> store \<Rightarrow> (js_error + unit) \<times> store" where
  "autoReleaseLoop now [] st = (Inr (), st)"
| "autoReleaseLoop now (esc # rest) st =
     (case acceptEscrow now (esc_id esc) st of
        (Inl e, st1) \<Rightarrow> (Inl e, st1)
      | (Inr _, st1) \<Rightarrow>
          autoReleaseLoop now rest
            (logEvent now (esc_id esc) ''auto_completed'' ''system''
               [(''reason'', JStr ''24h acceptance window expired'')] st1))"

fun autoRefundLoop :: "int \<Rightarrow> escrow_row list \<Rightarrow> store \<Rightarrow> store" where
  "autoRefundLoop now [] st = st"
| "autoRefundLoop now (esc # rest) st =
     autoRefundLoop now rest
       (logEvent now (esc_id esc) ''auto_refunded'' ''system''
          [(''reason'', JStr ''Deadline passed without delivery'')]
          (update_where_id (esc_id esc)
             (\<lambda>r. r\<lparr>status := ''refunded'', updated_at := sql_now now\<rparr>) st))"

definition autoRelease_rows :: "int \<Rightarrow> store \<Rightarrow> escrow_row list" where
  \<comment> \<open>\<open>WHERE status = 'delivered' AND updated_at < datetime('now', '-1 day')\<close>\<close>
  "autoRelease_rows now st =
     filter (\<lambda>r. status r = ''delivered'' \<and> updated_at r < sql_now now - 86400) (escrows st)"

definition autoRefund_rows :: "int \<Rightarrow> store \<Rightarrow> escrow_row list" where
  \<comment> \<open>\<open>WHERE status = 'funded' AND deadline < datetime('now')\<close>\<close>
  "autoRefund_rows now st =
     filter (\<lambda>r. status r = ''funded'' \<and> iso_text_lt_datetime (deadline r) (sql_now now))
       (escrows st)"

definition processExpiredEscrows :: "int \<Rightarrow> store \<Rightarrow> (js_error + nat \<times> nat) \<times> store" where
  "processExpiredEscrows now st =
     (let autoRelease = autoRelease_rows now st in
      case autoReleaseLoop now autoRelease st of
        (Inl e, st1) \<Rightarrow> (Inl e, st1)
      | (Inr _, st1) \<Rightarrow>
          let autoRefund = autoRefund_rows now st1
          in (Inr (length autoRelease, length autoRefund), autoRefundLoop now autoRefund st1))"

section \<open>The escrow contract (contracts/ClawVault.sol)\<close>

text \<open>
  An \<open>address\<close> and a \<open>uint256\<close> are natural numbers; \<open>address(0)\<close> is \<open>0\<close>.
  Solidity 0.8 checks its arithmetic: an operation whose result does not fit 256 bits
  reverts with a panic, which is the error \<open>Panic\<close> here. A transaction that reverts
  leaves no effect, so a function of the contract returns either the error or the new
  state. The sender and the block's timestamp are the first two arguments.

  The fields of the struct \<open>Escrow\<close> carry the prefix \<open>e_\<close>, as the contract
  reads them from \<open>Escrow storage e\<close>, and the mapping \<open>escrows\<close> is
  \<open>escrowsM\<close>; \<open>createEscrow\<close> and \<open>resolveDispute\<close> of the contract are
  \<open>vault_createEscrow\<close> and \<open>vault_resolveDispute\<close>, since the engine has
  functions of the same names. A modifier (\<open>onlyBuyer\<close>, \<open>onlySeller\<close>,
  \<open>onlyArbiter\<close>) is the first check of its function. \<open>nonReentrant\<close> has no
  effect here, where the token does not call back.
\<close>

type_synonym address = nat

datatype Status = Active | Delivered | Completed | Disputed | Refunded | Resolved

record Escrow =
  e_buyer :: address
  e_seller :: address
  e_amount :: nat
  e_fee :: nat
  e_serviceHash :: nat
  e_deliveryHash :: nat
  e_deadline :: nat
  e_deliveredAt :: nat
  e_acceptanceWindow :: nat
  e_status :: Status
  e_disputeReason :: string

datatype vault_event =
    EscrowCreated nat address address nat nat nat
  | DeliveryMarked nat nat
  | DeliveryAccepted nat nat
  | DisputeOpened nat string
  | DisputeResolved nat address nat
  | EscrowRefunded nat nat
  | EscrowClaimedByTimeout nat nat

text \<open>
  The token is another contract. Its calls are kept in the order they are made:
  \<open>(from, to, value)\<close> for \<open>safeTransferFrom(from, to, value)\<close>, and
  \<open>(address(this), to, value)\<close> for \<open>safeTransfer(to, value)\<close>. A token call
  that fails reverts the transaction as every other failure does.
\<close>

record ClawVault =
  this :: address
  arbiter :: address
  feeRecipient :: address
  feeBps :: nat
  nextEscrowId :: nat
  escrowsM :: "nat \<Rightarrow> Escrow"
  totalEscrowsCreated :: nat
  totalVolumeUsdc :: nat
  totalFeesCollected :: nat
  usdc_calls :: "(address \<times> address \<times> nat) list"
  emitted :: "vault_event list"

datatype vault_error =
    InvalidSeller
  | AmountMustBePositive
  | DeadlineTooShort
  | DeadlineTooLong
  | InvalidAcceptanceWindow
  | NotBuyer
  | NotSeller
  | NotArbiter
  | NotActive
  | DeadlinePassed
  | EmptyProof
  | NotDelivered
  | AcceptanceWindowExpired
  | ReasonRequired
  | NotDisputed
  | DeadlineNotPassed
  | AcceptanceWindowNotExpired
  | Panic

definition MIN_ACCEPTANCE_WINDOW :: nat where
  "MIN_ACCEPTANCE_WINDOW = 3600"

definition MAX_ACCEPTANCE_WINDOW :: nat where
  "MAX_ACCEPTANCE_WINDOW = 7 * 86400"

definition fits :: "nat \<Rightarrow> bool" where
  \<comment> \<open>the value is a \<open>uint256\<close>\<close>
  "fits n = (n < 2 ^ 256)"

definition zeroEscrow :: Escrow where
  \<comment> \<open>what a mapping holds at a key never written\<close>
  "zeroEscrow = \<lparr>e_buyer = 0, e_seller = 0, e_amount = 0, e_fee = 0, e_serviceHash = 0,
     e_deliveryHash = 0, e_deadline = 0, e_deliveredAt = 0, e_acceptanceWindow = 0,
     e_status = Active, e_disputeReason = []\<rparr>"


definition safeTransfer :: "address \<Rightarrow> nat \<Rightarrow> ClawVault \<Rightarrow> ClawVault" where
  "safeTransfer to v s = s\<lparr>usdc_calls := usdc_calls s @ [(this s, to, v)]\<rparr>"

definition emit :: "vault_event \<Rightarrow> ClawVault \<Rightarrow> ClawVault" where
  "emit ev s = s\<lparr>emitted := emitted s @ [ev]\<rparr>"

definition set_escrow :: "nat \<Rightarrow> Escrow \<Rightarrow> ClawVault \<Rightarrow> ClawVault" where
  "set_escrow i e s = s\<lparr>escrowsM := (escrowsM s)(i := e)\<rparr>"

definition pay_seller_and_fee :: "Escrow \<Rightarrow> ClawVault \<Rightarrow> vault_error + ClawVault" where
  \<comment> \<open>the seller's payment and the fee, as \<open>acceptDelivery\<close>, \<open>resolveDispute\<close> and
      \<open>claimByTimeout\<close> each write them\<close>
  "pay_seller_and_fee e s =
     (let s1 = safeTransfer (e_seller e) (e_amount e) s in
      if e_fee e > 0 then
        (if \<not> fits (totalFeesCollected s1 + e_fee e) then Inl Panic
         else Inr ((safeTransfer (feeRecipient s1) (e_fee e) s1)
                     \<lparr>totalFeesCollected := totalFeesCollected s1 + e_fee e\<rparr>))
      else Inr s1)"

definition vault_createEscrow ::
  "address \<Rightarrow> nat \<Rightarrow> address \<Rightarrow> nat \<Rightarrow> nat \<Rightarrow> nat \<Rightarrow> nat \<Rightarrow> ClawVault
     \<Rightarrow> vault_error + (nat \<times> ClawVault)" where
  "vault_createEscrow sender now seller amount serviceHash deadlineSeconds
       acceptanceWindowSeconds s =
     (if \<not> (seller \<noteq> 0 \<and> seller \<noteq> sender) then Inl InvalidSeller
      else if \<not> amount > 0 then Inl AmountMustBePositive
      else if \<not> deadlineSeconds \<ge> 3600 then Inl DeadlineTooShort
      else if \<not> deadlineSeconds \<le> 90 * 86400 then Inl DeadlineTooLong
      else if \<not> (acceptanceWindowSeconds \<ge> MIN_ACCEPTANCE_WINDOW \<and>
                  acceptanceWindowSeconds \<le> MAX_ACCEPTANCE_WINDOW)
        then Inl InvalidAcceptanceWindow
      else if \<not> fits (amount * feeBps s) then Inl Panic
      else
        let fee = (amount * feeBps s) div 10000 in
        if \<not> fits (amount + fee) then Inl Panic
        else
          let total = amount + fee;
              s1 = s\<lparr>usdc_calls := usdc_calls s @ [(sender, this s, total)]\<rparr>;
              escrowId = nextEscrowId s1
          in
          if \<not> fits (nextEscrowId s1 + 1) then Inl Panic
          else if \<not> fits (now + deadlineSeconds) then Inl Panic
          else
            let s2 = set_escrow escrowId
                       \<lparr>e_buyer = sender, e_seller = seller, e_amount = amount, e_fee = fee,
                        e_serviceHash = serviceHash, e_deliveryHash = 0,
                        e_deadline = now + deadlineSeconds, e_deliveredAt = 0,
                        e_acceptanceWindow = acceptanceWindowSeconds, e_status = Active,
                        e_disputeReason = []\<rparr>
                       (s1\<lparr>nextEscrowId := nextEscrowId s1 + 1\<rparr>)
            in
            if \<not> fits (totalEscrowsCreated s2 + 1) then Inl Panic
            else if \<not> fits (totalVolumeUsdc s2 + amount) then Inl Panic
            else
              Inr (escrowId,
                   emit (EscrowCreated escrowId sender seller amount
                           (e_deadline (escrowsM s2 escrowId)) serviceHash)
                     (s2\<lparr>totalEscrowsCreated := totalEscrowsCreated s2 + 1,
                         totalVolumeUsdc := totalVolumeUsdc s2 + amount\<rparr>)))"

definition markDelivered ::
  "address \<Rightarrow> nat \<Rightarrow> nat \<Rightarrow> nat \<Rightarrow> ClawVault \<Rightarrow> vault_error + ClawVault" where
  "markDelivered sender now escrowId deliveryHash s =
     (if \<not> sender = e_seller (escrowsM s escrowId) then Inl NotSeller
      else
        let e = escrowsM s escrowId in
        if \<not> e_status e = Active then Inl NotActive
        else if \<not> now \<le> e_deadline e then Inl DeadlinePassed
        else if \<not> deliveryHash \<noteq> 0 then Inl EmptyProof
        else
          Inr (emit (DeliveryMarked escrowId deliveryHash)
                 (set_escrow escrowId
                    (e\<lparr>e_deliveryHash := deliveryHash, e_deliveredAt := now,
                       e_status := Delivered\<rparr>) s)))"

definition acceptDelivery :: "address \<Rightarrow> nat \<Rightarrow> nat \<Rightarrow> ClawVault \<Rightarrow> vault_error + ClawVault" where
  "acceptDelivery sender now escrowId s =
     (if \<not> sender = e_buyer (escrowsM s escrowId) then Inl NotBuyer
      else
        let e = escrowsM s escrowId in
        if \<not> e_status e = Delivered then Inl NotDelivered
        else
          let e1 = e\<lparr>e_status := Completed\<rparr> in
          case pay_seller_and_fee e1 (set_escrow escrowId e1 s) of
            Inl err \<Rightarrow> Inl err
          | Inr s1 \<Rightarrow> Inr (emit (DeliveryAccepted escrowId (e_amount e1)) s1))"

definition openDispute ::
  "address \<Rightarrow> nat \<Rightarrow> nat \<Rightarrow> string \<Rightarrow> ClawVault \<Rightarrow> vault_error + ClawVault" where
  "openDispute sender now escrowId reason s =
     (if \<not> sender = e_buyer (escrowsM s escrowId) then Inl NotBuyer
      else
        let e = escrowsM s escrowId in
        if \<not> e_status e = Delivered then Inl NotDelivered
        else if \<not> fits (e_deliveredAt e + e_acceptanceWindow e) then Inl Panic
        else if \<not> now \<le> e_deliveredAt e + e_acceptanceWindow e
          then Inl AcceptanceWindowExpired
        else if \<not> length reason > 0 then Inl ReasonRequired
        else
          Inr (emit (DisputeOpened escrowId reason)
                 (set_escrow escrowId
                    (e\<lparr>e_status := Disputed, e_disputeReason := reason\<rparr>) s)))"

definition vault_resolveDispute ::
  "address \<Rightarrow> nat \<Rightarrow> nat \<Rightarrow> bool \<Rightarrow> ClawVault \<Rightarrow> vault_error + ClawVault" where
  "vault_resolveDispute sender now escrowId buyerWins s =
     (if \<not> sender = arbiter s then Inl NotArbiter
      else
        let e = escrowsM s escrowId in
        if \<not> e_status e = Disputed then Inl NotDisputed
        else
          let e1 = e\<lparr>e_status := Resolved\<rparr>;
              s1 = set_escrow escrowId e1 s
          in
          if buyerWins then
            (if \<not> fits (e_amount e1 + e_fee e1) then Inl Panic
             else Inr (emit (DisputeResolved escrowId (e_buyer e1) (e_amount e1 + e_fee e1))
                         (safeTransfer (e_buyer e1) (e_amount e1 + e_fee e1) s1)))
          else
            (case pay_seller_and_fee e1 s1 of
               Inl err \<Rightarrow> Inl err
             | Inr s2 \<Rightarrow> Inr (emit (DisputeResolved escrowId (e_seller e1) (e_amount e1)) s2)))"

definition reclaimExpired :: "address \<Rightarrow> nat \<Rightarrow> nat \<Rightarrow> ClawVault \<Rightarrow> vault_error + ClawVault" where
  "reclaimExpired sender now escrowId s =
     (if \<not> sender = e_buyer (escrowsM s escrowId) then Inl NotBuyer
      else
        let e = escrowsM s escrowId in
        if \<not> e_status e = Active then Inl NotActive
        else if \<not> now > e_deadline e then Inl DeadlineNotPassed
        else
          let e1 = e\<lparr>e_status := Refunded\<rparr> in
          if \<not> fits (e_amount e1 + e_fee e1) then Inl Panic
          else
            Inr (emit (EscrowRefunded escrowId (e_amount e1 + e_fee e1))
                   (safeTransfer (e_buyer e1) (e_amount e1 + e_fee e1)
                      (set_escrow escrowId e1 s))))"

definition claimByTimeout :: "address \<Rightarrow> nat \<Rightarrow> nat \<Rightarrow> ClawVault \<Rightarrow> vault_error + ClawVault" where
  "claimByTimeout sender now escrowId s =
     (if \<not> sender = e_seller (escrowsM s escrowId) then Inl NotSeller
      else
        let e = escrowsM s escrowId in
        if \<not> e_status e = Delivered then Inl NotDelivered
        else if \<not> fits (e_deliveredAt e + e_acceptanceWindow e) then Inl Panic
        else if \<not> now > e_deliveredAt e + e_acceptanceWindow e
          then Inl AcceptanceWindowNotExpired
        else
          let e1 = e\<lparr>e_status := Completed\<rparr> in
          case pay_seller_and_fee e1 (set_escrow escrowId e1 s) of
            Inl err \<Rightarrow> Inl err
          | Inr s1 \<Rightarrow> Inr (emit (EscrowClaimedByTimeout escrowId (e_amount e1)) s1))"

section \<open>Runs of the off-chain engine\<close>

text \<open>
  A request is one call of an exported function, or one run of the sweeper. The server
  answers a request whose function throws with an error and goes on, so a run keeps the
  store that the failed call left.
\<close>

datatype request =
    Create string string string int string "string option" int
  | Fund string "string option"
  | Deliver string "string option"
  | Accept string
  | Dispute string string string "string option"
  | Resolve string string string
  | Sweep

fun exec :: "int \<times> request \<Rightarrow> store \<Rightarrow> store" where
  "exec (now, Create i b s a d c h) st = snd (createEscrow now i b s a d c h st)"
| "exec (now, Fund i tx) st = snd (fundEscrow now i tx st)"
| "exec (now, Deliver i p) st = snd (deliverEscrow now i p st)"
| "exec (now, Accept i) st = snd (acceptEscrow now i st)"
| "exec (now, Dispute i a r e) st = snd (disputeEscrow now i a r e st)"
| "exec (now, Resolve i r w) st = snd (resolveDispute now i r w st)"
| "exec (now, Sweep) st = snd (processExpiredEscrows now st)"




definition status_of :: "string \<Rightarrow> store \<Rightarrow> string option" where
  \<comment> \<open>\<open>getEscrow(id).status\<close>, and \<open>None\<close> when there is no such escrow\<close>
  "status_of i st = map_option status (getEscrow i st)"

fun history :: "string \<Rightarrow> (int \<times> request) list \<Rightarrow> store \<Rightarrow> string option list" where
  "history i [] st = [status_of i st]"
| "history i (r # rs) st = status_of i st # history i rs (exec r st)"

fun step_ok :: "(string \<Rightarrow> string \<Rightarrow> bool) \<Rightarrow> string option \<Rightarrow> string option \<Rightarrow> bool" where
  "step_ok E None None = True"
| "step_ok E None (Some b) = (b = ''created'')"
| "step_ok E (Some a) None = False"
| "step_ok E (Some a) (Some b) = (a = b \<or> E a b)"

fun walk :: "(string \<Rightarrow> string \<Rightarrow> bool) \<Rightarrow> string option list \<Rightarrow> bool" where
  "walk E [] = True"
| "walk E [x] = True"
| "walk E (x # y # zs) = (step_ok E x y \<and> walk E (y # zs))"

text \<open>
  The state machine of the specification (section 4.1): the edges of its table of
  operations, and those of the chain
  \<open>created \<rightarrow> funded \<rightarrow> delivered \<rightarrow> {completed | disputed | refunded} \<rightarrow> resolved\<close>
  that its data model gives, with \<open>completed\<close>, \<open>refunded\<close> and \<open>resolved\<close> terminal.
\<close>

definition spec_edge :: "string \<Rightarrow> string \<Rightarrow> bool" where
  "spec_edge a b =
     ((a, b) \<in> set [(''created'', ''funded''), (''funded'', ''delivered''),
                    (''delivered'', ''completed''), (''delivered'', ''disputed''),
                    (''delivered'', ''refunded''), (''disputed'', ''resolved''),
                    (''created'', ''refunded''), (''funded'', ''refunded'')])"

text \<open>The state machine that the engine's functions implement.\<close>

definition engine_edge :: "string \<Rightarrow> string \<Rightarrow> bool" where
  "engine_edge a b =
     ((a, b) \<in> set [(''created'', ''funded''), (''funded'', ''delivered''),
                    (''funded'', ''disputed''), (''funded'', ''refunded''),
                    (''delivered'', ''completed''), (''delivered'', ''disputed''),
                    (''disputed'', ''completed''), (''disputed'', ''refunded'')])"

definition unique_ids :: "store \<Rightarrow> bool" where
  \<comment> \<open>\<open>id TEXT PRIMARY KEY\<close>\<close>
  "unique_ids st = distinct (map esc_id (escrows st))"

definition complete_row :: "int \<Rightarrow> escrow_row \<Rightarrow> escrow_row" where
  \<comment> \<open>the UPDATE of \<open>acceptEscrow\<close>\<close>
  "complete_row now r = r\<lparr>status := ''completed'', updated_at := sql_now now\<rparr>"

definition refund_row :: "int \<Rightarrow> escrow_row \<Rightarrow> escrow_row" where
  \<comment> \<open>the UPDATE of the sweeper's second loop\<close>
  "refund_row now r = r\<lparr>status := ''refunded'', updated_at := sql_now now\<rparr>"

definition sweep_row :: "int \<Rightarrow> escrow_row \<Rightarrow> escrow_row" where
  \<comment> \<open>what one run of the sweeper at \<open>now\<close> makes of a row\<close>
  "sweep_row now r =
     (if status r = ''delivered'' \<and> updated_at r < sql_now now - 86400 then complete_row now r
      else if status r = ''funded'' \<and> iso_text_lt_datetime (deadline r) (sql_now now)
        then refund_row now r
      else r)"

text \<open>A run for examples: one escrow, taken through its life a step at a time.\<close>

definition demo_created :: store where
  "demo_created =
     exec (0, Create ''esc_1'' ''buyer1'' ''seller1'' 100 ''X'' None 24) empty_store"

definition demo_funded :: store where
  "demo_funded = exec (1000, Fund ''esc_1'' (Some ''0xabc'')) demo_created"

definition demo_delivered :: store where
  "demo_delivered = exec (2000, Deliver ''esc_1'' (Some ''proof'')) demo_funded"

definition demo_completed :: store where
  "demo_completed = exec (3000, Accept ''esc_1'') demo_delivered"

definition demo_disputed :: store where
  "demo_disputed = exec (3000, Dispute ''esc_1'' ''buyer1'' ''late'' None) demo_delivered"

section \<open>Calls of the contract\<close>

datatype vault_call =
    CreateEscrow address nat nat nat nat
  | MarkDelivered nat nat
  | AcceptDelivery nat
  | OpenDispute nat string
  | ResolveDispute nat bool
  | ReclaimExpired nat
  | ClaimByTimeout nat

fun vault_exec :: "address \<Rightarrow> nat \<Rightarrow> vault_call \<Rightarrow> ClawVault \<Rightarrow> vault_error + ClawVault" where
  "vault_exec sender now (CreateEscrow seller amount h d w) s =
     (case vault_createEscrow sender now seller amount h d w s of
        Inl err \<Rightarrow> Inl err | Inr (i, s1) \<Rightarrow> Inr s1)"
| "vault_exec sender now (MarkDelivered i h) s = markDelivered sender now i h s"
| "vault_exec sender now (AcceptDelivery i) s = acceptDelivery sender now i s"
| "vault_exec sender now (OpenDispute i r) s = openDispute sender now i r s"
| "vault_exec sender now (ResolveDispute i b) s = vault_resolveDispute sender now i b s"
| "vault_exec sender now (ReclaimExpired i) s = reclaimExpired sender now i s"
| "vault_exec sender now (ClaimByTimeout i) s = claimByTimeout sender now i s"


definition demo_vault_active :: ClawVault where
  "demo_vault_active =
     \<lparr>this = 900, arbiter = 1, feeRecipient = 2, feeBps = 100, nextEscrowId = 1,
      escrowsM = (\<lambda>_. zeroEscrow)(0 :=
        \<lparr>e_buyer = 10, e_seller = 20, e_amount = 1000000, e_fee = 10000, e_serviceHash = 7,
         e_deliveryHash = 0, e_deadline = 4600, e_deliveredAt = 0, e_acceptanceWindow = 3600,
         e_status = Active, e_disputeReason = []\<rparr>),
      totalEscrowsCreated = 1, totalVolumeUsdc = 1000000, totalFeesCollected = 0,
      usdc_calls = [(10, 900, 1010000)],
      emitted = [EscrowCreated 0 10 20 1000000 4600 7]\<rparr>"

definition demo_vault_delivered :: ClawVault where
  "demo_vault_delivered =
     \<lparr>this = 900, arbiter = 1, feeRecipient = 2, feeBps = 100, nextEscrowId = 1,
      escrowsM = (\<lambda>_. zeroEscrow)(0 :=
        \<lparr>e_buyer = 10, e_seller = 20, e_amount = 1000000, e_fee = 10000, e_serviceHash = 7,
         e_deliveryHash = 9, e_deadline = 4600, e_deliveredAt = 2000,
         e_acceptanceWindow = 3600, e_status = Delivered, e_disputeReason = []\<rparr>),
      totalEscrowsCreated = 1, totalVolumeUsdc = 1000000, totalFeesCollected = 0,
      usdc_calls = [(10, 900, 1010000)],
      emitted = [EscrowCreated 0 10 20 1000000 4600 7, DeliveryMarked 0 9]\<rparr>"

definition demo_vault_completed :: ClawVault where
  "demo_vault_completed =
     \<lparr>this = 900, arbiter = 1, feeRecipient = 2, feeBps = 100, nextEscrowId = 1,
      escrowsM = (\<lambda>_. zeroEscrow)(0 :=
        \<lparr>e_buyer = 10, e_seller = 20, e_amount = 1000000, e_fee = 10000, e_serviceHash = 7,
         e_deliveryHash = 9, e_deadline = 4600, e_deliveredAt = 2000,
         e_acceptanceWindow = 3600, e_status = Completed, e_disputeReason = []\<rparr>),
      totalEscrowsCreated = 1, totalVolumeUsdc = 1000000, totalFeesCollected = 10000,
      usdc_calls = [(10, 900, 1010000), (900, 20, 1000000), (900, 2, 10000)],
      emitted = [EscrowCreated 0 10 20 1000000 4600 7, DeliveryMarked 0 9,
                 DeliveryAccepted 0 1000000]\<rparr>"

definition demo_vault_disputed :: ClawVault where
  "demo_vault_disputed =
     \<lparr>this = 900, arbiter = 1, feeRecipient = 2, feeBps = 100, nextEscrowId = 1,
      escrowsM = (\<lambda>_. zeroEscrow)(0 :=
        \<lparr>e_buyer = 10, e_seller = 20, e_amount = 1000000, e_fee = 10000, e_serviceHash = 7,
         e_deliveryHash = 9, e_deadline = 4600, e_deliveredAt = 2000,
         e_acceptanceWindow = 3600, e_status = Disputed, e_disputeReason = ''late''\<rparr>),
      totalEscrowsCreated = 1, totalVolumeUsdc = 1000000, totalFeesCollected = 0,
      usdc_calls = [(10, 900, 1010000)],
      emitted = [EscrowCreated 0 10 20 1000000 4600 7, DeliveryMarked 0 9,
                 DisputeOpened 0 ''late'']\<rparr>"

definition demo_vault_resolved_seller :: ClawVault where
  "demo_vault_resolved_seller =
     \<lparr>this = 900, arbiter = 1, feeRecipient = 2, feeBps = 100, nextEscrowId = 1,
      escrowsM = (\<lambda>_. zeroEscrow)(0 :=
        \<lparr>e_buyer = 10, e_seller = 20, e_amount = 1000000, e_fee = 10000, e_serviceHash = 7,
         e_deliveryHash = 9, e_deadline = 4600, e_deliveredAt = 2000,
         e_acceptanceWindow = 3600, e_status = Resolved, e_disputeReason = ''late''\<rparr>),
      totalEscrowsCreated = 1, totalVolumeUsdc = 1000000, totalFeesCollected = 10000,
      usdc_calls = [(10, 900, 1010000), (900, 20, 1000000), (900, 2, 10000)],
      emitted = [EscrowCreated 0 10 20 1000000 4600 7, DeliveryMarked 0 9,
                 DisputeOpened 0 ''late'', DisputeResolved 0 20 1000000]\<rparr>"



section \<open>Lemmas about the calls of the off-chain engine\<close>

lemma find_map_upd:
  assumes "\<And>r. esc_id (f r) = esc_id r"
  shows "find (\<lambda>r. esc_id r = i) (map (\<lambda>r. if esc_id r = j then f r else r) rs) =
         (if i = j then map_option f (find (\<lambda>r. esc_id r = j) rs)
          else find (\<lambda>r. esc_id r = i) rs)"
  using assms by (induction rs) auto

lemma getEscrow_logEvent [simp]: "getEscrow i (logEvent now j t a d st) = getEscrow i st"
  by (simp add: getEscrow_def logEvent_def)

lemma getEscrow_update:
  "(\<And>r. esc_id (f r) = esc_id r) \<Longrightarrow>
   getEscrow i (update_where_id j f st) =
     (if i = j then map_option f (getEscrow j st) else getEscrow i st)"
  by (simp add: getEscrow_def update_where_id_def find_map_upd)

lemma status_of_logEvent [simp]: "status_of i (logEvent now j t a d st) = status_of i st"
  by (simp add: status_of_def)

lemma ids_logEvent [simp]: "map esc_id (escrows (logEvent now j t a d st)) = map esc_id (escrows st)"
  by (simp add: logEvent_def)

lemma ids_update:
  "(\<And>r. esc_id (f r) = esc_id r) \<Longrightarrow>
   map esc_id (escrows (update_where_id j f st)) = map esc_id (escrows st)"
  by (simp add: update_where_id_def comp_def)

lemma status_of_fund:
  "status_of i (snd (fundEscrow now j tx st)) =
     (if i = j \<and> status_of j st = Some ''created'' then Some ''funded'' else status_of i st)"
  by (auto simp: fundEscrow_def status_of_def getEscrow_update Let_def split: option.splits)

lemma status_of_deliver:
  "status_of i (snd (deliverEscrow now j p st)) =
     (if i = j \<and> status_of j st = Some ''funded'' then Some ''delivered'' else status_of i st)"
  by (auto simp: deliverEscrow_def status_of_def getEscrow_update Let_def split: option.splits)

lemma status_of_accept:
  "status_of i (snd (acceptEscrow now j st)) =
     (if i = j \<and> status_of j st = Some ''delivered'' then Some ''completed'' else status_of i st)"
  by (auto simp: acceptEscrow_def status_of_def getEscrow_update Let_def split: option.splits)

lemma status_of_dispute:
  "status_of i (snd (disputeEscrow now j a r e st)) =
     (if i = j \<and> (status_of j st = Some ''funded'' \<or> status_of j st = Some ''delivered'')
      then Some ''disputed'' else status_of i st)"
  by (auto simp: disputeEscrow_def status_of_def getEscrow_update Let_def split: option.splits)

lemma status_of_resolve:
  "status_of i (snd (resolveDispute now j r w st)) =
     (if i = j \<and> status_of j st = Some ''disputed''
      then Some (if w = ''buyer'' then ''refunded'' else ''completed'') else status_of i st)"
  by (auto simp: resolveDispute_def status_of_def getEscrow_update Let_def split: option.splits)

lemma find_snoc:
  "find P (xs @ [r]) = (case find P xs of Some x \<Rightarrow> Some x | None \<Rightarrow> if P r then Some r else None)"
  by (induction xs) auto

lemma getEscrow_append:
  "getEscrow i (st\<lparr>escrows := escrows st @ [r]\<rparr>) =
     (case getEscrow i st of Some x \<Rightarrow> Some x | None \<Rightarrow> if esc_id r = i then Some r else None)"
  by (simp add: getEscrow_def find_snoc)

lemma getEscrow_None_iff: "getEscrow i st = None \<longleftrightarrow> i \<notin> set (map esc_id (escrows st))"
  by (auto simp: getEscrow_def find_None_iff)

lemma status_of_create:
  "status_of i (snd (createEscrow now j b s a d c h st)) =
     (if i = j \<and> status_of j st = None then Some ''created'' else status_of i st)"
proof (cases "getEscrow j st")
  case None
  then have "j \<notin> set (map esc_id (escrows st))" by (simp add: getEscrow_None_iff)
  with None show ?thesis
    by (auto simp: createEscrow_def status_of_def Let_def getEscrow_append split: option.splits)
next
  case (Some x)
  then have "j \<in> set (map esc_id (escrows st))"
    using getEscrow_None_iff[of j st] by auto
  with Some show ?thesis
    by (simp add: createEscrow_def status_of_def)
qed

lemma getEscrow_Some_D: "getEscrow i st = Some r \<Longrightarrow> r \<in> set (escrows st) \<and> esc_id r = i"
  by (auto simp: getEscrow_def find_Some_iff)

lemma find_unique:
  "distinct (map esc_id rs) \<Longrightarrow> r \<in> set rs \<Longrightarrow> find (\<lambda>x. esc_id x = esc_id r) rs = Some r"
  by (induction rs) force+

lemma getEscrow_unique:
  "unique_ids st \<Longrightarrow> r \<in> set (escrows st) \<Longrightarrow> getEscrow (esc_id r) st = Some r"
  by (simp add: unique_ids_def getEscrow_def find_unique)

lemma selected_iff:
  "unique_ids st \<Longrightarrow>
   i \<in> esc_id ` set (filter P (escrows st)) \<longleftrightarrow> (\<exists>r. getEscrow i st = Some r \<and> P r)"
  by (auto dest: getEscrow_Some_D getEscrow_unique)

lemma getEscrow_accept:
  "getEscrow i (snd (acceptEscrow now j st)) =
     (if i = j \<and> status_of j st = Some ''delivered''
      then map_option (complete_row now) (getEscrow j st) else getEscrow i st)"
  by (auto simp: acceptEscrow_def status_of_def getEscrow_update Let_def complete_row_def[abs_def]
      split: option.splits)

lemma accept_ok:
  "status_of j st = Some ''delivered'' \<Longrightarrow> \<exists>v. fst (acceptEscrow now j st) = Inr v"
  by (auto simp: acceptEscrow_def status_of_def Let_def split: option.splits)



lemma deliver_funded:
  "status_of j st = Some ''funded'' \<Longrightarrow>
   fst (deliverEscrow tnow j p st)
     = Inr \<lparr>r_id = j, r_status = ''delivered'', r_message = DeliveryRecorded\<rparr>"
  by (auto simp: deliverEscrow_def status_of_def Let_def split: option.splits)

lemma deliver_not_funded:
  "status_of j st = Some x \<Longrightarrow> x \<noteq> ''funded'' \<Longrightarrow>
   deliverEscrow tnow j p st = (Inl (CannotDeliver x), st)"
  by (auto simp: deliverEscrow_def status_of_def Let_def split: option.splits)

lemma deliver_updated_at:
  "status_of j st = Some ''funded'' \<Longrightarrow>
   map_option updated_at (getEscrow j (snd (deliverEscrow tnow j p st))) = Some (sql_now tnow)"
  by (auto simp: deliverEscrow_def status_of_def Let_def getEscrow_update split: option.splits)

lemma dispute_ok:
  "status_of j st = Some ''funded'' \<or> status_of j st = Some ''delivered'' \<Longrightarrow>
   fst (disputeEscrow tnow j who reason ev st)
     = Inr \<lparr>r_id = j, r_status = ''disputed'', r_message = DisputeFiled\<rparr>"
  by (auto simp: disputeEscrow_def status_of_def Let_def split: option.splits)

lemma resolve_disputed:
  "getEscrow j st = Some r \<Longrightarrow> status r = ''disputed'' \<Longrightarrow>
   fst (resolveDispute tnow j res w st)
     = Inr \<lparr>r_id = j, r_status = (if w = ''buyer'' then ''refunded'' else ''completed''),
            r_message = (if w = ''buyer'' then RefundToBuyer (amount_usdc r)
                         else PaymentReleasedToSeller (amount_usdc r))\<rparr>"
  by (simp add: resolveDispute_def Let_def)

lemma resolve_event:
  "getEscrow j st = Some r \<Longrightarrow> status r = ''disputed'' \<Longrightarrow>
   escrow_events (snd (resolveDispute tnow j res w st))
     = escrow_events st @
         [\<lparr>ev_id = Suc (length (escrow_events st)), escrow_id = j, event_type = ''resolved'',
           actor = ''trustlayer'',
           data = [(''resolution'', JStr res), (''winner'', JStr w)],
           ev_created_at = sql_now tnow\<rparr>]"
  by (simp add: resolveDispute_def Let_def logEvent_def update_where_id_def)



lemma unique_ids_create: "unique_ids st \<Longrightarrow> unique_ids (snd (createEscrow now j b s a d c h st))"
  by (auto simp: unique_ids_def createEscrow_def Let_def logEvent_def)

lemma unique_ids_fund: "unique_ids st \<Longrightarrow> unique_ids (snd (fundEscrow now j tx st))"
  by (auto simp: unique_ids_def fundEscrow_def Let_def ids_update split: option.splits)

lemma unique_ids_deliver: "unique_ids st \<Longrightarrow> unique_ids (snd (deliverEscrow now j tx st))"
  by (auto simp: unique_ids_def deliverEscrow_def Let_def ids_update split: option.splits)

lemma unique_ids_accept: "unique_ids st \<Longrightarrow> unique_ids (snd (acceptEscrow now j st))"
  by (auto simp: unique_ids_def acceptEscrow_def Let_def ids_update split: option.splits)

lemma unique_ids_dispute: "unique_ids st \<Longrightarrow> unique_ids (snd (disputeEscrow now j a r e st))"
  by (auto simp: unique_ids_def disputeEscrow_def Let_def ids_update split: option.splits)

lemma unique_ids_resolve: "unique_ids st \<Longrightarrow> unique_ids (snd (resolveDispute now j r w st))"
  by (auto simp: unique_ids_def resolveDispute_def Let_def ids_update split: option.splits)

section \<open>Lemmas about the sweeper\<close>

lemma ids_accept: "map esc_id (escrows (snd (acceptEscrow now j st))) = map esc_id (escrows st)"
  by (auto simp: acceptEscrow_def Let_def ids_update split: option.splits)

lemma ids_autoReleaseLoop:
  "map esc_id (escrows (snd (autoReleaseLoop now sel st))) = map esc_id (escrows st)"
proof (induction sel arbitrary: st)
  case Nil
  then show ?case by simp
next
  case (Cons r sel)
  show ?case
  proof (cases "acceptEscrow now (esc_id r) st")
    case (Pair res st1)
    have ids1: "map esc_id (escrows st1) = map esc_id (escrows st)"
      using ids_accept[of now "esc_id r" st] Pair by simp
    show ?thesis
    proof (cases res)
      case (Inl e)
      with Pair ids1 show ?thesis by simp
    next
      case (Inr v)
      with Pair ids1 Cons.IH show ?thesis by simp
    qed
  qed
qed

lemma ids_autoRefundLoop:
  "map esc_id (escrows (autoRefundLoop now sel st)) = map esc_id (escrows st)"
  by (induction sel arbitrary: st) (simp_all add: ids_update)

lemma ids_sweep:
  "map esc_id (escrows (snd (processExpiredEscrows now st))) = map esc_id (escrows st)"
proof (cases "autoReleaseLoop now (autoRelease_rows now st) st")
  case (Pair res st1)
  have "map esc_id (escrows st1) = map esc_id (escrows st)"
    using ids_autoReleaseLoop[of now "autoRelease_rows now st" st] Pair by simp
  with Pair show ?thesis
    by (cases res) (simp_all add: processExpiredEscrows_def ids_autoRefundLoop Let_def)
qed

lemma unique_ids_exec: "unique_ids st \<Longrightarrow> unique_ids (exec r st)"
proof (cases r)
  case (Pair now q)
  assume u: "unique_ids st"
  show ?thesis
  proof (cases q)
    case Sweep
    with Pair u show ?thesis by (simp add: unique_ids_def ids_sweep)
  qed (use Pair u in \<open>simp_all add: unique_ids_create unique_ids_fund unique_ids_deliver
        unique_ids_accept unique_ids_dispute unique_ids_resolve\<close>)
qed

lemma autoReleaseLoop_selected:
  assumes "\<forall>r\<in>set sel. status_of (esc_id r) st = Some ''delivered''"
    and "distinct (map esc_id sel)"
  shows "fst (autoReleaseLoop now sel st) = Inr () \<and>
         (\<forall>i. getEscrow i (snd (autoReleaseLoop now sel st)) =
            (if i \<in> esc_id ` set sel then map_option (complete_row now) (getEscrow i st)
             else getEscrow i st))"
  using assms
proof (induction sel arbitrary: st)
  case Nil
  then show ?case by simp
next
  case (Cons r sel)
  obtain res st1 where acc: "acceptEscrow now (esc_id r) st = (res, st1)"
    by (cases "acceptEscrow now (esc_id r) st")
  have del: "status_of (esc_id r) st = Some ''delivered''"
    using Cons.prems(1) by simp
  obtain v where res: "res = Inr v"
    using accept_ok[OF del, of now] acc by auto
  have g1: "\<And>i. getEscrow i st1 =
      (if i = esc_id r then map_option (complete_row now) (getEscrow i st) else getEscrow i st)"
    using getEscrow_accept[of _ now "esc_id r" st] acc del by auto
  let ?st2 = "logEvent now (esc_id r) ''auto_completed'' ''system''
               [(''reason'', JStr ''24h acceptance window expired'')] st1"
  have pre: "\<forall>x\<in>set sel. status_of (esc_id x) ?st2 = Some ''delivered''"
  proof
    fix x assume x: "x \<in> set sel"
    then have "esc_id x \<noteq> esc_id r" using Cons.prems(2) by (auto simp: image_iff)
    then show "status_of (esc_id x) ?st2 = Some ''delivered''"
      using Cons.prems(1) x by (simp add: status_of_def g1)
  qed
  have dist: "distinct (map esc_id sel)" using Cons.prems(2) by simp
  note ih = Cons.IH[OF pre dist]
  have step: "autoReleaseLoop now (r # sel) st = autoReleaseLoop now sel ?st2"
    using acc res by simp
  show ?case
  proof (intro conjI allI)
    show "fst (autoReleaseLoop now (r # sel) st) = Inr ()"
      using ih step by simp
  next
    fix i
    have nr: "esc_id r \<notin> esc_id ` set sel" using Cons.prems(2) by auto
    show "getEscrow i (snd (autoReleaseLoop now (r # sel) st)) =
            (if i \<in> esc_id ` set (r # sel) then map_option (complete_row now) (getEscrow i st)
             else getEscrow i st)"
      using ih step nr by (auto simp: g1)
  qed
qed

lemma autoRefundLoop_selected:
  assumes "distinct (map esc_id sel)"
  shows "getEscrow i (autoRefundLoop now sel st) =
            (if i \<in> esc_id ` set sel then map_option (refund_row now) (getEscrow i st)
             else getEscrow i st)"
  using assms
proof (induction sel arbitrary: st)
  case Nil
  then show ?case by simp
next
  case (Cons r sel)
  have nr: "esc_id r \<notin> esc_id ` set sel" using Cons.prems by auto
  have dist: "distinct (map esc_id sel)" using Cons.prems by simp
  show ?case
    using Cons.IH[OF dist] nr
    by (auto simp: getEscrow_update refund_row_def[abs_def])
qed

lemma sweep_rows:
  assumes u: "unique_ids st"
  shows "(\<exists>c. fst (processExpiredEscrows now st) = Inr c) \<and>
         getEscrow i (snd (processExpiredEscrows now st)) =
           map_option (sweep_row now) (getEscrow i st)"
proof -
  let ?P1 = "\<lambda>r. status r = ''delivered'' \<and> updated_at r < sql_now now - 86400"
  let ?P2 = "\<lambda>r. status r = ''funded'' \<and> iso_text_lt_datetime (deadline r) (sql_now now)"
  let ?sel1 = "autoRelease_rows now st"
  have d1: "distinct (map esc_id ?sel1)"
    using u by (simp add: unique_ids_def autoRelease_rows_def distinct_map_filter)
  have p1: "\<forall>r\<in>set ?sel1. status_of (esc_id r) st = Some ''delivered''"
    using u by (auto simp: autoRelease_rows_def status_of_def getEscrow_unique)
  obtain res st1 where l1: "autoReleaseLoop now ?sel1 st = (res, st1)"
    by (cases "autoReleaseLoop now ?sel1 st")
  have res: "res = Inr ()"
    using autoReleaseLoop_selected[OF p1 d1, of now] l1 by simp
  have g1: "\<And>j. getEscrow j st1 =
      (if j \<in> esc_id ` set ?sel1 then map_option (complete_row now) (getEscrow j st)
       else getEscrow j st)"
    using autoReleaseLoop_selected[OF p1 d1, of now] l1 by simp
  have s1: "\<And>j. j \<in> esc_id ` set ?sel1 \<longleftrightarrow> (\<exists>r. getEscrow j st = Some r \<and> ?P1 r)"
    unfolding autoRelease_rows_def using selected_iff[OF u] by simp
  have u1: "unique_ids st1"
    using ids_autoReleaseLoop[of now ?sel1 st] l1 u by (simp add: unique_ids_def)
  let ?sel2 = "autoRefund_rows now st1"
  have d2: "distinct (map esc_id ?sel2)"
    using u1 by (simp add: unique_ids_def autoRefund_rows_def distinct_map_filter)
  have s2: "\<And>j. j \<in> esc_id ` set ?sel2 \<longleftrightarrow> (\<exists>r. getEscrow j st1 = Some r \<and> ?P2 r)"
    unfolding autoRefund_rows_def using selected_iff[OF u1] by simp
  have fin: "processExpiredEscrows now st =
      (Inr (length ?sel1, length ?sel2), autoRefundLoop now ?sel2 st1)"
    using l1 res by (simp add: processExpiredEscrows_def Let_def)
  have g2: "getEscrow i (autoRefundLoop now ?sel2 st1) =
      (if i \<in> esc_id ` set ?sel2 then map_option (refund_row now) (getEscrow i st1)
       else getEscrow i st1)"
    by (rule autoRefundLoop_selected[OF d2])
  have "getEscrow i (autoRefundLoop now ?sel2 st1) = map_option (sweep_row now) (getEscrow i st)"
  proof (cases "getEscrow i st")
    case None
    then show ?thesis using g1[of i] g2 s1[of i] s2[of i] by simp
  next
    case (Some r)
    show ?thesis
    proof (cases "?P1 r")
      case True
      then have "getEscrow i st1 = Some (complete_row now r)"
        using Some g1[of i] s1[of i] by simp
      then show ?thesis
        using True Some g2 s2[of i] by (simp add: sweep_row_def complete_row_def)
    next
      case False
      then have "getEscrow i st1 = Some r"
        using Some g1[of i] s1[of i] by auto
      then show ?thesis
        using False Some g2 s2[of i] by (auto simp: sweep_row_def)
    qed
  qed
  with fin show ?thesis by simp
qed

lemma status_of_sweep:
  "unique_ids st \<Longrightarrow>
   status_of i (snd (processExpiredEscrows now st)) = map_option (\<lambda>r. status (sweep_row now r)) (getEscrow i st)"
  using sweep_rows[of st now i] by (simp add: status_of_def option.map_comp comp_def)









section \<open>Every request keeps the status on an edge\<close>

lemma step_ok_exec:
  assumes "unique_ids st"
  shows "step_ok engine_edge (status_of i st) (status_of i (exec q st))"
proof (cases q)
  case (Pair now rq)
  show ?thesis
  proof (cases rq)
    case (Create j b s a d c h)
    with Pair show ?thesis
      by (cases "status_of i st") (auto simp: status_of_create)
  next
    case (Fund j tx)
    with Pair show ?thesis
      by (cases "status_of i st") (auto simp: status_of_fund engine_edge_def)
  next
    case (Deliver j p)
    with Pair show ?thesis
      by (cases "status_of i st") (auto simp: status_of_deliver engine_edge_def)
  next
    case (Accept j)
    with Pair show ?thesis
      by (cases "status_of i st") (auto simp: status_of_accept engine_edge_def)
  next
    case (Dispute j a r e)
    with Pair show ?thesis
      by (cases "status_of i st") (auto simp: status_of_dispute engine_edge_def)
  next
    case (Resolve j r w)
    with Pair show ?thesis
      by (cases "status_of i st") (auto simp: status_of_resolve engine_edge_def)
  next
    case Sweep
    show ?thesis
    proof (cases "getEscrow i st")
      case None
      with Pair Sweep assms show ?thesis
        by (simp add: status_of_sweep) (simp add: status_of_def)
    next
      case (Some r)
      with Pair Sweep assms show ?thesis
        by (simp add: status_of_sweep)
           (auto simp: status_of_def sweep_row_def complete_row_def refund_row_def engine_edge_def)
    qed
  qed
qed

lemma walk_history:
  "unique_ids st \<Longrightarrow> walk engine_edge (history i reqs st)"
proof (induction reqs arbitrary: st)
  case Nil
  then show ?case by simp
next
  case (Cons q reqs)
  have u': "unique_ids (exec q st)" by (rule unique_ids_exec[OF Cons.prems])
  have w: "walk engine_edge (history i reqs (exec q st))" by (rule Cons.IH[OF u'])
  have s: "step_ok engine_edge (status_of i st) (status_of i (exec q st))"
    by (rule step_ok_exec[OF Cons.prems])
  show ?case
  proof (cases reqs)
    case Nil
    with s show ?thesis by simp
  next
    case (Cons q2 rest)
    with s w show ?thesis by simp
  qed
qed

section \<open>The example run, evaluated\<close>

lemmas engine_defs = createEscrow_def fundEscrow_def deliverEscrow_def acceptEscrow_def
  disputeEscrow_def resolveDispute_def processExpiredEscrows_def autoRelease_rows_def
  autoRefund_rows_def getEscrow_def update_where_id_def logEvent_def status_of_def
  empty_store_def sql_now_def iso_text_lt_datetime_def opt_json_def Let_def

lemma demo_created_eq:
  "demo_created =
     \<lparr>escrows =
        [\<lparr>esc_id = ''esc_1'', buyer_address = ''buyer1'', seller_address = ''seller1'',
          amount_usdc = 100, service_description = ''X'', acceptance_criteria = None,
          deadline = 86400000, status = ''created'', deposit_tx = None, release_tx = None,
          refund_tx = None, dispute_reason = None, dispute_evidence = None,
          resolution = None, created_at = 0, updated_at = 0\<rparr>],
      escrow_events =
        [\<lparr>ev_id = 1, escrow_id = ''esc_1'', event_type = ''created'', actor = ''buyer1'',
          data = [(''amountUsdc'', JNum 100), (''deadline'', JIso 86400000)],
          ev_created_at = 0\<rparr>]\<rparr>"
  by (simp add: demo_created_def engine_defs)

lemma demo_funded_eq:
  "demo_funded =
     \<lparr>escrows =
        [\<lparr>esc_id = ''esc_1'', buyer_address = ''buyer1'', seller_address = ''seller1'',
          amount_usdc = 100, service_description = ''X'', acceptance_criteria = None,
          deadline = 86400000, status = ''funded'', deposit_tx = Some ''0xabc'',
          release_tx = None, refund_tx = None, dispute_reason = None,
          dispute_evidence = None, resolution = None, created_at = 0, updated_at = 1\<rparr>],
      escrow_events =
        [\<lparr>ev_id = 1, escrow_id = ''esc_1'', event_type = ''created'', actor = ''buyer1'',
          data = [(''amountUsdc'', JNum 100), (''deadline'', JIso 86400000)],
          ev_created_at = 0\<rparr>,
         \<lparr>ev_id = 2, escrow_id = ''esc_1'', event_type = ''funded'', actor = ''buyer1'',
          data = [(''depositTxHash'', JStr ''0xabc'')], ev_created_at = 1\<rparr>]\<rparr>"
  by (simp add: demo_funded_def demo_created_eq engine_defs)

lemma demo_delivered_eq:
  "demo_delivered =
     \<lparr>escrows =
        [\<lparr>esc_id = ''esc_1'', buyer_address = ''buyer1'', seller_address = ''seller1'',
          amount_usdc = 100, service_description = ''X'', acceptance_criteria = None,
          deadline = 86400000, status = ''delivered'', deposit_tx = Some ''0xabc'',
          release_tx = None, refund_tx = None, dispute_reason = None,
          dispute_evidence = None, resolution = None, created_at = 0, updated_at = 2\<rparr>],
      escrow_events =
        [\<lparr>ev_id = 1, escrow_id = ''esc_1'', event_type = ''created'', actor = ''buyer1'',
          data = [(''amountUsdc'', JNum 100), (''deadline'', JIso 86400000)],
          ev_created_at = 0\<rparr>,
         \<lparr>ev_id = 2, escrow_id = ''esc_1'', event_type = ''funded'', actor = ''buyer1'',
          data = [(''depositTxHash'', JStr ''0xabc'')], ev_created_at = 1\<rparr>,
         \<lparr>ev_id = 3, escrow_id = ''esc_1'', event_type = ''delivered'', actor = ''seller1'',
          data = [(''proof'', JStr ''proof'')], ev_created_at = 2\<rparr>]\<rparr>"
  by (simp add: demo_delivered_def demo_funded_eq engine_defs)

lemma demo_completed_eq:
  "demo_completed =
     \<lparr>escrows =
        [\<lparr>esc_id = ''esc_1'', buyer_address = ''buyer1'', seller_address = ''seller1'',
          amount_usdc = 100, service_description = ''X'', acceptance_criteria = None,
          deadline = 86400000, status = ''completed'', deposit_tx = Some ''0xabc'',
          release_tx = None, refund_tx = None, dispute_reason = None,
          dispute_evidence = None, resolution = None, created_at = 0, updated_at = 3\<rparr>],
      escrow_events =
        [\<lparr>ev_id = 1, escrow_id = ''esc_1'', event_type = ''created'', actor = ''buyer1'',
          data = [(''amountUsdc'', JNum 100), (''deadline'', JIso 86400000)],
          ev_created_at = 0\<rparr>,
         \<lparr>ev_id = 2, escrow_id = ''esc_1'', event_type = ''funded'', actor = ''buyer1'',
          data = [(''depositTxHash'', JStr ''0xabc'')], ev_created_at = 1\<rparr>,
         \<lparr>ev_id = 3, escrow_id = ''esc_1'', event_type = ''delivered'', actor = ''seller1'',
          data = [(''proof'', JStr ''proof'')], ev_created_at = 2\<rparr>,
         \<lparr>ev_id = 4, escrow_id = ''esc_1'', event_type = ''completed'', actor = ''buyer1'',
          data = [(''released_to'', JStr ''seller1'')], ev_created_at = 3\<rparr>]\<rparr>"
  by (simp add: demo_completed_def demo_delivered_eq engine_defs)

lemma demo_disputed_eq:
  "demo_disputed =
     \<lparr>escrows =
        [\<lparr>esc_id = ''esc_1'', buyer_address = ''buyer1'', seller_address = ''seller1'',
          amount_usdc = 100, service_description = ''X'', acceptance_criteria = None,
          deadline = 86400000, status = ''disputed'', deposit_tx = Some ''0xabc'',
          release_tx = None, refund_tx = None, dispute_reason = Some ''late'',
          dispute_evidence = None, resolution = None, created_at = 0, updated_at = 3\<rparr>],
      escrow_events =
        [\<lparr>ev_id = 1, escrow_id = ''esc_1'', event_type = ''created'', actor = ''buyer1'',
          data = [(''amountUsdc'', JNum 100), (''deadline'', JIso 86400000)],
          ev_created_at = 0\<rparr>,
         \<lparr>ev_id = 2, escrow_id = ''esc_1'', event_type = ''funded'', actor = ''buyer1'',
          data = [(''depositTxHash'', JStr ''0xabc'')], ev_created_at = 1\<rparr>,
         \<lparr>ev_id = 3, escrow_id = ''esc_1'', event_type = ''delivered'', actor = ''seller1'',
          data = [(''proof'', JStr ''proof'')], ev_created_at = 2\<rparr>,
         \<lparr>ev_id = 4, escrow_id = ''esc_1'', event_type = ''disputed'', actor = ''buyer1'',
          data = [(''reason'', JStr ''late''), (''evidence'', JNull)],
          ev_created_at = 3\<rparr>]\<rparr>"
  by (simp add: demo_disputed_def demo_delivered_eq engine_defs)

lemma demo_disputed_row:
  "getEscrow ''esc_1'' demo_disputed =
     Some \<lparr>esc_id = ''esc_1'', buyer_address = ''buyer1'', seller_address = ''seller1'',
          amount_usdc = 100, service_description = ''X'', acceptance_criteria = None,
          deadline = 86400000, status = ''disputed'', deposit_tx = Some ''0xabc'',
          release_tx = None, refund_tx = None, dispute_reason = Some ''late'',
          dispute_evidence = None, resolution = None, created_at = 0, updated_at = 3\<rparr>"
  by (simp add: demo_disputed_eq getEscrow_def)

lemma demo_unique:
  "unique_ids demo_created" "unique_ids demo_funded" "unique_ids demo_delivered"
  by (simp_all add: unique_ids_def demo_created_eq demo_funded_eq demo_delivered_eq)

text \<open>
  The comparison of the two texts is by calendar day: the example escrow is funded, its
  deadline is the start of the second day after the epoch, and a run later on that same
  day, when the deadline has passed, leaves it \<open>funded\<close>.
\<close>

lemma sweep_same_day:
  "map_option deadline (getEscrow ''esc_1'' demo_funded) = Some 86400000 \<and>
   (86400000 :: int) < 100000000 \<and>
   status_of ''esc_1'' (snd (processExpiredEscrows 100000000 demo_funded)) = Some ''funded''"
  using sweep_rows [OF demo_unique(2), of 100000000 "''esc_1''"]
  by (simp add: status_of_def demo_funded_eq getEscrow_def sweep_row_def sql_now_def
        iso_text_lt_datetime_def)

section \<open>Lemmas about the contract\<close>

lemmas vault_defs = safeTransfer_def emit_def set_escrow_def pay_seller_and_fee_def Let_def


lemma vault_create_success:
  "vault_createEscrow sender now seller amount h d w s = Inr (i, s') \<Longrightarrow>
   amount > 0 \<and> seller \<noteq> sender \<and> seller \<noteq> 0 \<and> i = nextEscrowId s \<and>
   nextEscrowId s' = nextEscrowId s + 1 \<and>
   escrowsM s' = (escrowsM s)(i :=
     \<lparr>e_buyer = sender, e_seller = seller, e_amount = amount,
      e_fee = amount * feeBps s div 10000, e_serviceHash = h, e_deliveryHash = 0,
      e_deadline = now + d, e_deliveredAt = 0, e_acceptanceWindow = w, e_status = Active,
      e_disputeReason = []\<rparr>) \<and>
   usdc_calls s' = usdc_calls s @ [(sender, this s, amount + amount * feeBps s div 10000)]"
  by (auto simp: vault_createEscrow_def vault_defs split: if_splits)


lemma markDelivered_success:
  "markDelivered sender now i h s = Inr s' \<Longrightarrow>
   sender = e_seller (escrowsM s i) \<and> e_status (escrowsM s i) = Active \<and>
   now \<le> e_deadline (escrowsM s i) \<and> h \<noteq> 0 \<and> nextEscrowId s' = nextEscrowId s \<and>
   escrowsM s' = (escrowsM s)(i := (escrowsM s i)
       \<lparr>e_deliveryHash := h, e_deliveredAt := now, e_status := Delivered\<rparr>)"
  by (auto simp: markDelivered_def vault_defs split: if_splits)

lemma markDelivered_late:
  "sender = e_seller (escrowsM s i) \<Longrightarrow> e_status (escrowsM s i) = Active \<Longrightarrow>
   now > e_deadline (escrowsM s i) \<Longrightarrow> markDelivered sender now i h s = Inl DeadlinePassed"
  by (simp add: markDelivered_def vault_defs)

lemma markDelivered_not_active:
  "sender = e_seller (escrowsM s i) \<Longrightarrow> e_status (escrowsM s i) \<noteq> Active \<Longrightarrow>
   markDelivered sender now i h s = Inl NotActive"
  by (simp add: markDelivered_def vault_defs)

lemma markDelivered_total:
  "sender = e_seller (escrowsM s i) \<Longrightarrow> e_status (escrowsM s i) = Active \<Longrightarrow>
   now \<le> e_deadline (escrowsM s i) \<Longrightarrow> h \<noteq> 0 \<Longrightarrow> \<exists>s'. markDelivered sender now i h s = Inr s'"
  by (simp add: markDelivered_def vault_defs)

lemma pay_seller_and_fee_success:
  "pay_seller_and_fee e s = Inr s' \<Longrightarrow>
   escrowsM s' = escrowsM s \<and> nextEscrowId s' = nextEscrowId s \<and> this s' = this s \<and>
   arbiter s' = arbiter s \<and> feeRecipient s' = feeRecipient s \<and> emitted s' = emitted s \<and>
   usdc_calls s' = usdc_calls s @ (this s, e_seller e, e_amount e) #
      (if e_fee e > 0 then [(this s, feeRecipient s, e_fee e)] else [])"
  unfolding pay_seller_and_fee_def safeTransfer_def Let_def
  by (cases "e_fee e > 0"; cases "fits (totalFeesCollected s + e_fee e)") auto

lemma acceptDelivery_success:
  assumes "acceptDelivery sender now i s = Inr s'"
  shows "sender = e_buyer (escrowsM s i) \<and> e_status (escrowsM s i) = Delivered \<and>
   nextEscrowId s' = nextEscrowId s \<and>
   escrowsM s' = (escrowsM s)(i := (escrowsM s i)\<lparr>e_status := Completed\<rparr>) \<and>
   usdc_calls s' = usdc_calls s @ (this s, e_seller (escrowsM s i), e_amount (escrowsM s i)) #
      (if e_fee (escrowsM s i) > 0 then [(this s, feeRecipient s, e_fee (escrowsM s i))] else [])"
proof -
  let ?e = "escrowsM s i"
  let ?e1 = "?e\<lparr>e_status := Completed\<rparr>"
  from assms have a: "sender = e_buyer ?e" and b: "e_status ?e = Delivered"
    by (auto simp: acceptDelivery_def Let_def split: if_splits)
  from assms a b obtain s1 where p: "pay_seller_and_fee ?e1 (set_escrow i ?e1 s) = Inr s1"
    and s': "s' = emit (DeliveryAccepted i (e_amount ?e1)) s1"
    by (auto simp: acceptDelivery_def Let_def split: sum.splits)
  from pay_seller_and_fee_success[OF p] s' a b show ?thesis
    by (simp add: emit_def set_escrow_def)
qed


lemma claimByTimeout_success:
  assumes "claimByTimeout sender now i s = Inr s'"
  shows "sender = e_seller (escrowsM s i) \<and> e_status (escrowsM s i) = Delivered \<and>
   now > e_deliveredAt (escrowsM s i) + e_acceptanceWindow (escrowsM s i) \<and>
   nextEscrowId s' = nextEscrowId s \<and>
   escrowsM s' = (escrowsM s)(i := (escrowsM s i)\<lparr>e_status := Completed\<rparr>) \<and>
   usdc_calls s' = usdc_calls s @ (this s, e_seller (escrowsM s i), e_amount (escrowsM s i)) #
      (if e_fee (escrowsM s i) > 0 then [(this s, feeRecipient s, e_fee (escrowsM s i))] else [])"
proof -
  let ?e = "escrowsM s i"
  let ?e1 = "?e\<lparr>e_status := Completed\<rparr>"
  from assms have a: "sender = e_seller ?e" and b: "e_status ?e = Delivered"
    and f: "fits (e_deliveredAt ?e + e_acceptanceWindow ?e)"
    and t: "now > e_deliveredAt ?e + e_acceptanceWindow ?e"
    by (auto simp: claimByTimeout_def Let_def split: if_splits)
  from assms a b f t obtain s1 where p: "pay_seller_and_fee ?e1 (set_escrow i ?e1 s) = Inr s1"
    and s': "s' = emit (EscrowClaimedByTimeout i (e_amount ?e1)) s1"
    by (auto simp: claimByTimeout_def Let_def split: sum.splits)
  from pay_seller_and_fee_success[OF p] s' a b t show ?thesis
    by (simp add: emit_def set_escrow_def)
qed



lemma openDispute_success:
  "openDispute sender now i reason s = Inr s' \<Longrightarrow>
   sender = e_buyer (escrowsM s i) \<and> e_status (escrowsM s i) = Delivered \<and>
   now \<le> e_deliveredAt (escrowsM s i) + e_acceptanceWindow (escrowsM s i) \<and> reason \<noteq> [] \<and>
   nextEscrowId s' = nextEscrowId s \<and> usdc_calls s' = usdc_calls s \<and>
   escrowsM s' = (escrowsM s)(i := (escrowsM s i)
      \<lparr>e_status := Disputed, e_disputeReason := reason\<rparr>)"
  unfolding openDispute_def Let_def emit_def set_escrow_def
  by (simp split: if_splits) auto

lemma openDispute_not_buyer:
  "sender \<noteq> e_buyer (escrowsM s i) \<Longrightarrow> openDispute sender now i reason s = Inl NotBuyer"
  by (simp add: openDispute_def)

lemma openDispute_not_delivered:
  "sender = e_buyer (escrowsM s i) \<Longrightarrow> e_status (escrowsM s i) \<noteq> Delivered \<Longrightarrow>
   openDispute sender now i reason s = Inl NotDelivered"
  by (simp add: openDispute_def Let_def)

lemma openDispute_in_window:
  "sender = e_buyer (escrowsM s i) \<Longrightarrow> e_status (escrowsM s i) = Delivered \<Longrightarrow>
   fits (e_deliveredAt (escrowsM s i) + e_acceptanceWindow (escrowsM s i)) \<Longrightarrow>
   openDispute sender now i reason s =
     (if e_deliveredAt (escrowsM s i) + e_acceptanceWindow (escrowsM s i) < now
        then Inl AcceptanceWindowExpired
      else if reason = [] then Inl ReasonRequired
      else Inr (emit (DisputeOpened i reason)
                 (set_escrow i ((escrowsM s i)\<lparr>e_status := Disputed,
                                               e_disputeReason := reason\<rparr>) s)))"
  by (simp add: openDispute_def Let_def)

lemma reclaimExpired_success:
  "reclaimExpired sender now i s = Inr s' \<Longrightarrow>
   sender = e_buyer (escrowsM s i) \<and> e_status (escrowsM s i) = Active \<and>
   now > e_deadline (escrowsM s i) \<and> nextEscrowId s' = nextEscrowId s \<and>
   escrowsM s' = (escrowsM s)(i := (escrowsM s i)\<lparr>e_status := Refunded\<rparr>) \<and>
   usdc_calls s' = usdc_calls s @
     [(this s, e_buyer (escrowsM s i), e_amount (escrowsM s i) + e_fee (escrowsM s i))]"
  unfolding reclaimExpired_def Let_def emit_def set_escrow_def safeTransfer_def
  by (simp split: if_splits) auto



lemma vault_resolveDispute_success:
  assumes "vault_resolveDispute sender now i bw s = Inr s'"
  shows "sender = arbiter s \<and> e_status (escrowsM s i) = Disputed \<and>
   nextEscrowId s' = nextEscrowId s \<and>
   escrowsM s' = (escrowsM s)(i := (escrowsM s i)\<lparr>e_status := Resolved\<rparr>) \<and>
   usdc_calls s' = usdc_calls s @
     (if bw then [(this s, e_buyer (escrowsM s i), e_amount (escrowsM s i) + e_fee (escrowsM s i))]
      else (this s, e_seller (escrowsM s i), e_amount (escrowsM s i)) #
           (if e_fee (escrowsM s i) > 0 then [(this s, feeRecipient s, e_fee (escrowsM s i))]
            else []))"
proof -
  let ?e = "escrowsM s i"
  let ?e1 = "?e\<lparr>e_status := Resolved\<rparr>"
  from assms have a: "sender = arbiter s" and b: "e_status ?e = Disputed"
    by (auto simp: vault_resolveDispute_def Let_def split: if_splits)
  show ?thesis
  proof (cases bw)
    case True
    with assms a b show ?thesis
      unfolding vault_resolveDispute_def Let_def emit_def set_escrow_def safeTransfer_def
      by (simp split: if_splits) auto
  next
    case False
    with assms a b obtain s1 where p: "pay_seller_and_fee ?e1 (set_escrow i ?e1 s) = Inr s1"
      and s': "s' = emit (DisputeResolved i (e_seller ?e1) (e_amount ?e1)) s1"
      by (auto simp: vault_resolveDispute_def Let_def split: sum.splits)
    from pay_seller_and_fee_success[OF p] s' a b False show ?thesis
      by (simp add: emit_def set_escrow_def)
  qed
qed


lemma vault_resolve_not_arbiter:
  "sender \<noteq> arbiter s \<Longrightarrow> vault_resolveDispute sender now i bw s = Inl NotArbiter"
  by (simp add: vault_resolveDispute_def)


lemma vault_resolve_targets:
  assumes "vault_resolveDispute sender now i bw s = Inr s'"
  shows "set (map (\<lambda>(f, t, v). t) (drop (length (usdc_calls s)) (usdc_calls s')))
         \<subseteq> (if bw then {e_buyer (escrowsM s i)}
            else {e_seller (escrowsM s i), feeRecipient s})"
  using vault_resolveDispute_success[OF assms] by auto


lemma vault_exec_frozen:
  assumes "vault_exec sender now c s = Inr s'" and "i < nextEscrowId s"
    and "e_status (escrowsM s i) \<noteq> Active"
  shows "e_deliveredAt (escrowsM s' i) = e_deliveredAt (escrowsM s i) \<and>
         e_status (escrowsM s' i) \<noteq> Active \<and> i < nextEscrowId s'"
proof (cases c)
  case (CreateEscrow seller amount h d w)
  with assms obtain j where "vault_createEscrow sender now seller amount h d w s = Inr (j, s')"
    by (auto split: sum.splits)
  from vault_create_success[OF this] assms(2,3) show ?thesis by auto
next
  case (MarkDelivered j h)
  with assms have "markDelivered sender now j h s = Inr s'" by simp
  from markDelivered_success[OF this] assms(2,3) show ?thesis by (cases "i = j") auto
next
  case (AcceptDelivery j)
  with assms have "acceptDelivery sender now j s = Inr s'" by simp
  from acceptDelivery_success[OF this] assms(2,3) show ?thesis by (cases "i = j") auto
next
  case (OpenDispute j r)
  with assms have "openDispute sender now j r s = Inr s'" by simp
  from openDispute_success[OF this] assms(2,3) show ?thesis by (cases "i = j") auto
next
  case (ResolveDispute j b)
  with assms have "vault_resolveDispute sender now j b s = Inr s'" by simp
  from vault_resolveDispute_success[OF this] assms(2,3) show ?thesis by (cases "i = j") auto
next
  case (ReclaimExpired j)
  with assms have "reclaimExpired sender now j s = Inr s'" by simp
  from reclaimExpired_success[OF this] assms(2,3) show ?thesis by (cases "i = j") auto
next
  case (ClaimByTimeout j)
  with assms have "claimByTimeout sender now j s = Inr s'" by simp
  from claimByTimeout_success[OF this] assms(2,3) show ?thesis by (cases "i = j") auto
qed



lemma demo_vault_delivered_reached:
  "markDelivered 20 2000 0 9 demo_vault_active = Inr demo_vault_delivered"
  by (simp add: markDelivered_def demo_vault_active_def demo_vault_delivered_def vault_defs)

lemma demo_vault_completed_reached:
  "acceptDelivery 10 2500 0 demo_vault_delivered = Inr demo_vault_completed"
  by (simp add: acceptDelivery_def demo_vault_completed_def demo_vault_delivered_def vault_defs fits_def)

lemma demo_vault_disputed_reached:
  "openDispute 10 2500 0 ''late'' demo_vault_delivered = Inr demo_vault_disputed"
  by (simp add: openDispute_def demo_vault_disputed_def demo_vault_delivered_def vault_defs fits_def)

lemma demo_vault_resolved_seller_reached:
  "vault_resolveDispute 1 3000 0 False demo_vault_disputed = Inr demo_vault_resolved_seller"
  by (simp add: vault_resolveDispute_def demo_vault_disputed_def demo_vault_resolved_seller_def
      vault_defs fits_def)


section \<open>The claims\<close>

subsection \<open>C1: the statuses of an escrow are a walk of the state machine\<close>

text \<open>
  C1, as the specification states it: for every escrow, the sequence of statuses it
  passes through is a walk of the state machine of section 4.1, and no transition skips a
  required predecessor state. The engine does not keep to that machine: \<open>disputeEscrow\<close>
  accepts an escrow that is \<open>funded\<close> and not yet \<open>delivered\<close>. After create, fund and
  dispute the statuses are created, funded, disputed, and the specification has no edge
  from funded to disputed.
\<close>

theorem C1_counterexample:
  "\<not> walk spec_edge
       (history ''esc_1''
          [(0, Create ''esc_1'' ''buyer1'' ''seller1'' 100 ''X'' None 24),
           (1000, Fund ''esc_1'' (Some ''0xabc'')),
           (2000, Dispute ''esc_1'' ''buyer1'' ''late'' None)]
          empty_store)"
  by (simp add: engine_defs spec_edge_def)

text \<open>
  C1, amended: for every escrow and every sequence of requests (calls of the exported
  functions and runs of the sweeper, failed calls included), the sequence of statuses of
  the escrow is a walk of the engine's own state machine \<open>engine_edge\<close>: created to
  funded, funded to delivered, delivered to completed, funded or delivered to disputed,
  disputed to completed or refunded, funded to refunded; and the first status of an
  escrow is created.
\<close>

theorem C1_status_walk:
  "unique_ids st \<Longrightarrow> walk engine_edge (history i reqs st)"
  by (rule walk_history)

theorem C1_status_walk_witness:
  "unique_ids empty_store \<and>
   history ''esc_1''
     [(0, Create ''esc_1'' ''buyer1'' ''seller1'' 100 ''X'' None 24),
      (1000, Fund ''esc_1'' (Some ''0xabc'')),
      (2000, Dispute ''esc_1'' ''buyer1'' ''late'' None),
      (3000, Resolve ''esc_1'' ''seller delivered'' ''seller'')]
     empty_store
     = [None, Some ''created'', Some ''funded'', Some ''disputed'', Some ''completed''] \<and>
   walk engine_edge
     (history ''esc_1''
        [(0, Create ''esc_1'' ''buyer1'' ''seller1'' 100 ''X'' None 24),
         (1000, Fund ''esc_1'' (Some ''0xabc'')),
         (2000, Dispute ''esc_1'' ''buyer1'' ''late'' None),
         (3000, Resolve ''esc_1'' ''seller delivered'' ''seller'')]
        empty_store)"
proof -
  have u: "unique_ids empty_store"
    by (simp add: unique_ids_def empty_store_def)
  have h: "history ''esc_1''
     [(0, Create ''esc_1'' ''buyer1'' ''seller1'' 100 ''X'' None 24),
      (1000, Fund ''esc_1'' (Some ''0xabc'')),
      (2000, Dispute ''esc_1'' ''buyer1'' ''late'' None),
      (3000, Resolve ''esc_1'' ''seller delivered'' ''seller'')]
     empty_store
     = [None, Some ''created'', Some ''funded'', Some ''disputed'', Some ''completed'']"
    by (simp add: engine_defs)
  show ?thesis
    using u h C1_status_walk [OF u] by blast
qed

subsection \<open>C2: what creation checks\<close>




subsection \<open>C3: delivery and the deadline\<close>

text \<open>
  C3, as the specification states it: \<open>deliverEscrow\<close> fails once the deadline has
  passed. The off-chain \<open>deliverEscrow\<close> never reads the deadline: the example escrow
  has its deadline 24 hours after the epoch, and a delivery 48 hours after the epoch
  succeeds and leaves the escrow \<open>delivered\<close>.
\<close>

theorem C3_counterexample:
  "map_option deadline (getEscrow ''esc_1'' demo_funded) = Some 86400000 \<and>
   (86400000 :: int) < 172800000 \<and>
   fst (deliverEscrow 172800000 ''esc_1'' (Some ''proof'') demo_funded)
     = Inr \<lparr>r_id = ''esc_1'', r_status = ''delivered'', r_message = DeliveryRecorded\<rparr> \<and>
   status_of ''esc_1'' (snd (deliverEscrow 172800000 ''esc_1'' (Some ''proof'') demo_funded))
     = Some ''delivered''"
  by (simp add: demo_funded_eq engine_defs)

text \<open>
  C3, amended. The contract's \<open>markDelivered\<close> succeeds only for the seller, only from
  status \<open>Active\<close> and only when \<open>block.timestamp \<le> deadline\<close> (and then it does
  succeed if the proof hash is not zero); for the seller it fails with
  \<open>Deadline passed\<close> on an active escrow whose deadline has passed and with
  \<open>Not active\<close> from every other status; on success the status is \<open>Delivered\<close> and
  \<open>deliveredAt\<close> is the timestamp, and no later successful call of the contract changes
  \<open>deliveredAt\<close> of an escrow that has left \<open>Active\<close>, nor brings it back to
  \<open>Active\<close>. The off-chain \<open>deliverEscrow\<close> succeeds from status \<open>funded\<close> whatever
  the deadline, sets the status \<open>delivered\<close> and \<open>updated_at\<close> (there is no column
  \<open>deliveredAt\<close>), and from every other status fails with \<open>Cannot deliver\<close> and
  changes nothing.
\<close>

theorem C3_deliver:
  "(markDelivered sender now i h s = Inr s' \<longrightarrow>
      sender = e_seller (escrowsM s i) \<and> e_status (escrowsM s i) = Active \<and>
      now \<le> e_deadline (escrowsM s i) \<and>
      e_status (escrowsM s' i) = Delivered \<and> e_deliveredAt (escrowsM s' i) = now) \<and>
   (sender = e_seller (escrowsM s i) \<and> e_status (escrowsM s i) = Active \<and>
    now \<le> e_deadline (escrowsM s i) \<and> h \<noteq> 0 \<longrightarrow>
      (\<exists>s1. markDelivered sender now i h s = Inr s1)) \<and>
   (sender = e_seller (escrowsM s i) \<and> e_status (escrowsM s i) = Active \<and>
    e_deadline (escrowsM s i) < now \<longrightarrow>
      markDelivered sender now i h s = Inl DeadlinePassed) \<and>
   (sender = e_seller (escrowsM s i) \<and> e_status (escrowsM s i) \<noteq> Active \<longrightarrow>
      markDelivered sender now i h s = Inl NotActive) \<and>
   (vault_exec caller later c s = Inr sb \<and> i < nextEscrowId s \<and>
    e_status (escrowsM s i) \<noteq> Active \<longrightarrow>
      e_deliveredAt (escrowsM sb i) = e_deliveredAt (escrowsM s i) \<and>
      e_status (escrowsM sb i) \<noteq> Active) \<and>
   (status_of j st = Some ''funded'' \<longrightarrow>
      fst (deliverEscrow tnow j p st)
        = Inr \<lparr>r_id = j, r_status = ''delivered'', r_message = DeliveryRecorded\<rparr> \<and>
      status_of j (snd (deliverEscrow tnow j p st)) = Some ''delivered'' \<and>
      map_option updated_at (getEscrow j (snd (deliverEscrow tnow j p st)))
        = Some (sql_now tnow)) \<and>
   (status_of j st = Some x \<and> x \<noteq> ''funded'' \<longrightarrow>
      deliverEscrow tnow j p st = (Inl (CannotDeliver x), st))"
proof (intro conjI impI)
  assume a: "markDelivered sender now i h s = Inr s'"
  note r = markDelivered_success[OF a]
  show "sender = e_seller (escrowsM s i)" "e_status (escrowsM s i) = Active"
    "now \<le> e_deadline (escrowsM s i)" "e_status (escrowsM s' i) = Delivered"
    "e_deliveredAt (escrowsM s' i) = now"
    using r by simp_all
next
  assume "sender = e_seller (escrowsM s i) \<and> e_status (escrowsM s i) = Active \<and>
    now \<le> e_deadline (escrowsM s i) \<and> h \<noteq> 0"
  then show "\<exists>s1. markDelivered sender now i h s = Inr s1"
    using markDelivered_total[of sender s i now h] by blast
next
  assume "sender = e_seller (escrowsM s i) \<and> e_status (escrowsM s i) = Active \<and>
    e_deadline (escrowsM s i) < now"
  then show "markDelivered sender now i h s = Inl DeadlinePassed"
    using markDelivered_late[of sender s i now h] by blast
next
  assume "sender = e_seller (escrowsM s i) \<and> e_status (escrowsM s i) \<noteq> Active"
  then show "markDelivered sender now i h s = Inl NotActive"
    using markDelivered_not_active[of sender s i now h] by blast
next
  assume a: "vault_exec caller later c s = Inr sb \<and> i < nextEscrowId s \<and>
    e_status (escrowsM s i) \<noteq> Active"
  then have r: "e_deliveredAt (escrowsM sb i) = e_deliveredAt (escrowsM s i) \<and>
         e_status (escrowsM sb i) \<noteq> Active \<and> i < nextEscrowId sb"
    using vault_exec_frozen[of caller later c s sb i] by blast
  show "e_deliveredAt (escrowsM sb i) = e_deliveredAt (escrowsM s i)"
    "e_status (escrowsM sb i) \<noteq> Active"
    using r by simp_all
next
  assume f: "status_of j st = Some ''funded''"
  show "fst (deliverEscrow tnow j p st)
        = Inr \<lparr>r_id = j, r_status = ''delivered'', r_message = DeliveryRecorded\<rparr>"
    by (rule deliver_funded[OF f])
  show "status_of j (snd (deliverEscrow tnow j p st)) = Some ''delivered''"
    using f by (simp add: status_of_deliver)
  show "map_option updated_at (getEscrow j (snd (deliverEscrow tnow j p st)))
        = Some (sql_now tnow)"
    by (rule deliver_updated_at[OF f])
next
  assume "status_of j st = Some x \<and> x \<noteq> ''funded''"
  then show "deliverEscrow tnow j p st = (Inl (CannotDeliver x), st)"
    using deliver_not_funded[of j st x tnow p] by blast
qed

theorem C3_deliver_witness:
  "markDelivered 20 2000 0 9 demo_vault_active = Inr demo_vault_delivered \<and>
   e_status (escrowsM demo_vault_delivered 0) = Delivered \<and>
   e_deliveredAt (escrowsM demo_vault_delivered 0) = 2000 \<and>
   markDelivered 20 4601 0 9 demo_vault_active = Inl DeadlinePassed \<and>
   markDelivered 20 3000 0 9 demo_vault_delivered = Inl NotActive \<and>
   vault_exec 10 2500 (AcceptDelivery 0) demo_vault_delivered = Inr demo_vault_completed \<and>
   e_deliveredAt (escrowsM demo_vault_completed 0) = 2000 \<and>
   status_of ''esc_1'' demo_funded = Some ''funded'' \<and>
   status_of ''esc_1'' (snd (deliverEscrow 172800000 ''esc_1'' (Some ''proof'') demo_funded))
     = Some ''delivered'' \<and>
   status_of ''esc_1'' demo_completed = Some ''completed'' \<and>
   deliverEscrow 5000 ''esc_1'' (Some ''proof'') demo_completed
     = (Inl (CannotDeliver ''completed''), demo_completed)"
proof -
  have r: "markDelivered 20 2000 0 9 demo_vault_active = Inr demo_vault_delivered"
    by (rule demo_vault_delivered_reached)
  have act: "20 = e_seller (escrowsM demo_vault_active 0) \<and>
      e_status (escrowsM demo_vault_active 0) = Active \<and>
      e_deadline (escrowsM demo_vault_active 0) < 4601 \<and>
      2000 \<le> e_deadline (escrowsM demo_vault_active 0) \<and> (9::nat) \<noteq> 0"
    by (simp add: demo_vault_active_def)
  have del: "20 = e_seller (escrowsM demo_vault_delivered 0) \<and>
      e_status (escrowsM demo_vault_delivered 0) \<noteq> Active \<and>
      0 < nextEscrowId demo_vault_delivered \<and>
      e_deliveredAt (escrowsM demo_vault_delivered 0) = 2000"
    by (simp add: demo_vault_delivered_def)
  have acc: "vault_exec 10 2500 (AcceptDelivery 0) demo_vault_delivered = Inr demo_vault_completed"
    by (simp add: demo_vault_completed_reached)
  have f: "status_of ''esc_1'' demo_funded = Some ''funded''"
    by (simp add: demo_funded_eq status_of_def getEscrow_def)
  have c: "status_of ''esc_1'' demo_completed = Some ''completed'' \<and> ''completed'' \<noteq> ''funded''"
    by (simp add: demo_completed_eq status_of_def getEscrow_def)
  note t1 = C3_deliver [where sender = 20 and now = 2000 and i = 0 and h = 9
      and s = demo_vault_active and s' = demo_vault_delivered
      and j = "''esc_1''" and st = demo_funded and tnow = 172800000 and p = "Some ''proof''"]
  note t2 = C3_deliver [where sender = 20 and now = 4601 and i = 0 and h = 9
      and s = demo_vault_active]
  note t3 = C3_deliver [where sender = 20 and now = 3000 and i = 0 and h = 9
      and s = demo_vault_delivered and caller = 10 and later = 2500 and c = "AcceptDelivery 0"
      and sb = demo_vault_completed and j = "''esc_1''" and st = demo_completed
      and x = "''completed''" and tnow = 5000 and p = "Some ''proof''"]
  from t1 r have 1: "e_status (escrowsM demo_vault_delivered 0) = Delivered \<and>
      e_deliveredAt (escrowsM demo_vault_delivered 0) = 2000"
    by simp
  from t1 act have 7: "\<exists>s1. markDelivered 20 2000 0 9 demo_vault_active = Inr s1"
    by blast
  from t2 act have 2: "markDelivered 20 4601 0 9 demo_vault_active = Inl DeadlinePassed"
    by blast
  from t3 del have 3: "markDelivered 20 3000 0 9 demo_vault_delivered = Inl NotActive"
    by blast
  from t3 del acc have 4: "e_deliveredAt (escrowsM demo_vault_completed 0) = 2000"
    by simp
  from t1 f have 5: "status_of ''esc_1''
      (snd (deliverEscrow 172800000 ''esc_1'' (Some ''proof'') demo_funded)) = Some ''delivered''"
    by blast
  from t3 c have 6: "deliverEscrow 5000 ''esc_1'' (Some ''proof'') demo_completed
     = (Inl (CannotDeliver ''completed''), demo_completed)"
    by simp
  from r 1 2 3 acc 4 f 5 c 6 show ?thesis by blast
qed

subsection \<open>C4: who may dispute, from where and when\<close>

text \<open>
  C4, as the specification states it: a dispute succeeds only from status Delivered, only
  for the buyer, only inside the acceptance window and only with a reason. The off-chain
  \<open>disputeEscrow\<close> accepts a funded escrow, reads neither the caller nor the clock nor
  the reason: the seller disputes the example escrow, which is funded and not delivered,
  with an empty reason, and the escrow is \<open>disputed\<close>.
\<close>

theorem C4_counterexample:
  "status_of ''esc_1'' demo_funded = Some ''funded'' \<and>
   map_option buyer_address (getEscrow ''esc_1'' demo_funded) = Some ''buyer1'' \<and>
   ''seller1'' \<noteq> ''buyer1'' \<and>
   fst (disputeEscrow 5000 ''esc_1'' ''seller1'' [] None demo_funded)
     = Inr \<lparr>r_id = ''esc_1'', r_status = ''disputed'', r_message = DisputeFiled\<rparr> \<and>
   status_of ''esc_1'' (snd (disputeEscrow 5000 ''esc_1'' ''seller1'' [] None demo_funded))
     = Some ''disputed''"
  by (simp add: demo_funded_eq engine_defs)

text \<open>
  C4, amended. The contract's \<open>openDispute\<close> succeeds only for the buyer, only from
  status \<open>Delivered\<close>, only when
  \<open>block.timestamp \<le> deliveredAt + acceptanceWindow\<close> and only with a reason that is
  not empty, and then the status is \<open>Disputed\<close>; otherwise it fails, in this order,
  with \<open>Not buyer\<close>, \<open>Not delivered\<close>, \<open>Acceptance window expired\<close> or
  \<open>Reason required\<close>. The off-chain \<open>disputeEscrow\<close> succeeds from status
  \<open>funded\<close> as well as from \<open>delivered\<close>, for every caller, at every time and with
  every reason, and sets the status \<open>disputed\<close>; from every other status it fails with
  \<open>Cannot dispute\<close> and changes nothing.
\<close>

theorem C4_dispute:
  "(openDispute sender now i reason s = Inr s' \<longrightarrow>
      sender = e_buyer (escrowsM s i) \<and> e_status (escrowsM s i) = Delivered \<and>
      now \<le> e_deliveredAt (escrowsM s i) + e_acceptanceWindow (escrowsM s i) \<and>
      reason \<noteq> [] \<and> e_status (escrowsM s' i) = Disputed) \<and>
   (sender \<noteq> e_buyer (escrowsM s i) \<longrightarrow> openDispute sender now i reason s = Inl NotBuyer) \<and>
   (sender = e_buyer (escrowsM s i) \<and> e_status (escrowsM s i) \<noteq> Delivered \<longrightarrow>
      openDispute sender now i reason s = Inl NotDelivered) \<and>
   (sender = e_buyer (escrowsM s i) \<and> e_status (escrowsM s i) = Delivered \<and>
    fits (e_deliveredAt (escrowsM s i) + e_acceptanceWindow (escrowsM s i)) \<longrightarrow>
      (e_deliveredAt (escrowsM s i) + e_acceptanceWindow (escrowsM s i) < now \<longrightarrow>
         openDispute sender now i reason s = Inl AcceptanceWindowExpired) \<and>
      (now \<le> e_deliveredAt (escrowsM s i) + e_acceptanceWindow (escrowsM s i) \<and> reason = []
         \<longrightarrow> openDispute sender now i reason s = Inl ReasonRequired) \<and>
      (now \<le> e_deliveredAt (escrowsM s i) + e_acceptanceWindow (escrowsM s i) \<and> reason \<noteq> []
         \<longrightarrow> (\<exists>s1. openDispute sender now i reason s = Inr s1))) \<and>
   (status_of j st = Some ''funded'' \<or> status_of j st = Some ''delivered'' \<longrightarrow>
      fst (disputeEscrow tnow j who why ev st)
        = Inr \<lparr>r_id = j, r_status = ''disputed'', r_message = DisputeFiled\<rparr> \<and>
      status_of j (snd (disputeEscrow tnow j who why ev st)) = Some ''disputed'') \<and>
   (status_of j st = Some x \<and> x \<noteq> ''funded'' \<and> x \<noteq> ''delivered'' \<longrightarrow>
      disputeEscrow tnow j who why ev st = (Inl (CannotDispute x), st))"
proof (intro conjI impI)
  assume a: "openDispute sender now i reason s = Inr s'"
  note r = openDispute_success[OF a]
  show "sender = e_buyer (escrowsM s i)" "e_status (escrowsM s i) = Delivered"
    "now \<le> e_deliveredAt (escrowsM s i) + e_acceptanceWindow (escrowsM s i)"
    "reason \<noteq> []" "e_status (escrowsM s' i) = Disputed"
    using r by simp_all
next
  assume "sender \<noteq> e_buyer (escrowsM s i)"
  then show "openDispute sender now i reason s = Inl NotBuyer"
    by (rule openDispute_not_buyer)
next
  assume "sender = e_buyer (escrowsM s i) \<and> e_status (escrowsM s i) \<noteq> Delivered"
  then show "openDispute sender now i reason s = Inl NotDelivered"
    using openDispute_not_delivered[of sender s i now reason] by blast
next
  assume a: "sender = e_buyer (escrowsM s i) \<and> e_status (escrowsM s i) = Delivered \<and>
    fits (e_deliveredAt (escrowsM s i) + e_acceptanceWindow (escrowsM s i))"
  then have r: "openDispute sender now i reason s =
     (if e_deliveredAt (escrowsM s i) + e_acceptanceWindow (escrowsM s i) < now
        then Inl AcceptanceWindowExpired
      else if reason = [] then Inl ReasonRequired
      else Inr (emit (DisputeOpened i reason)
                 (set_escrow i ((escrowsM s i)\<lparr>e_status := Disputed,
                                               e_disputeReason := reason\<rparr>) s)))"
    using openDispute_in_window[of sender s i now reason] by blast
  {
    assume "e_deliveredAt (escrowsM s i) + e_acceptanceWindow (escrowsM s i) < now"
    then show "openDispute sender now i reason s = Inl AcceptanceWindowExpired"
      using r by simp
  }
  {
    assume "now \<le> e_deliveredAt (escrowsM s i) + e_acceptanceWindow (escrowsM s i) \<and> reason = []"
    then show "openDispute sender now i reason s = Inl ReasonRequired"
      using r by simp
  }
  {
    assume "now \<le> e_deliveredAt (escrowsM s i) + e_acceptanceWindow (escrowsM s i) \<and> reason \<noteq> []"
    then show "\<exists>s1. openDispute sender now i reason s = Inr s1"
      using r by simp
  }
next
  assume a: "status_of j st = Some ''funded'' \<or> status_of j st = Some ''delivered''"
  show "fst (disputeEscrow tnow j who why ev st)
        = Inr \<lparr>r_id = j, r_status = ''disputed'', r_message = DisputeFiled\<rparr>"
    by (rule dispute_ok[OF a])
  show "status_of j (snd (disputeEscrow tnow j who why ev st)) = Some ''disputed''"
    using a by (auto simp: status_of_dispute)
next
  assume "status_of j st = Some x \<and> x \<noteq> ''funded'' \<and> x \<noteq> ''delivered''"
  then show "disputeEscrow tnow j who why ev st = (Inl (CannotDispute x), st)"
    by (auto simp: disputeEscrow_def status_of_def split: option.splits)
qed

theorem C4_dispute_witness:
  "openDispute 10 2500 0 ''late'' demo_vault_delivered = Inr demo_vault_disputed \<and>
   e_status (escrowsM demo_vault_disputed 0) = Disputed \<and>
   openDispute 20 2500 0 ''late'' demo_vault_delivered = Inl NotBuyer \<and>
   openDispute 10 2500 0 ''late'' demo_vault_active = Inl NotDelivered \<and>
   openDispute 10 5601 0 ''late'' demo_vault_delivered = Inl AcceptanceWindowExpired \<and>
   openDispute 10 5600 0 [] demo_vault_delivered = Inl ReasonRequired \<and>
   status_of ''esc_1'' demo_funded = Some ''funded'' \<and>
   status_of ''esc_1'' (snd (disputeEscrow 5000 ''esc_1'' ''seller1'' [] None demo_funded))
     = Some ''disputed'' \<and>
   status_of ''esc_1'' demo_completed = Some ''completed'' \<and>
   disputeEscrow 5000 ''esc_1'' ''buyer1'' ''late'' None demo_completed
     = (Inl (CannotDispute ''completed''), demo_completed)"
proof -
  have r: "openDispute 10 2500 0 ''late'' demo_vault_delivered = Inr demo_vault_disputed"
    by (rule demo_vault_disputed_reached)
  have nb: "20 \<noteq> e_buyer (escrowsM demo_vault_delivered 0)"
    by (simp add: demo_vault_delivered_def)
  have del: "10 = e_buyer (escrowsM demo_vault_delivered 0) \<and>
      e_status (escrowsM demo_vault_delivered 0) = Delivered \<and>
      fits (e_deliveredAt (escrowsM demo_vault_delivered 0)
            + e_acceptanceWindow (escrowsM demo_vault_delivered 0))"
    by (simp add: demo_vault_delivered_def fits_def)
  have late: "e_deliveredAt (escrowsM demo_vault_delivered 0)
        + e_acceptanceWindow (escrowsM demo_vault_delivered 0) < 5601"
    by (simp add: demo_vault_delivered_def)
  have intime: "5600 \<le> e_deliveredAt (escrowsM demo_vault_delivered 0)
        + e_acceptanceWindow (escrowsM demo_vault_delivered 0) \<and> ([] :: string) = []"
    by (simp add: demo_vault_delivered_def)
  have act: "10 = e_buyer (escrowsM demo_vault_active 0) \<and>
      e_status (escrowsM demo_vault_active 0) \<noteq> Delivered"
    by (simp add: demo_vault_active_def)
  have f: "status_of ''esc_1'' demo_funded = Some ''funded''"
    by (simp add: demo_funded_eq status_of_def getEscrow_def)
  have c: "status_of ''esc_1'' demo_completed = Some ''completed'' \<and>
      ''completed'' \<noteq> ''funded'' \<and> ''completed'' \<noteq> ''delivered''"
    by (simp add: demo_completed_eq status_of_def getEscrow_def)
  note t1 = C4_dispute [where sender = 10 and now = 2500 and i = 0 and reason = "''late''"
      and s = demo_vault_delivered and s' = demo_vault_disputed
      and j = "''esc_1''" and st = demo_funded and tnow = 5000 and who = "''seller1''"
      and why = "[]" and ev = None]
  note t2 = C4_dispute [where sender = 20 and now = 2500 and i = 0 and reason = "''late''"
      and s = demo_vault_delivered]
  note t3 = C4_dispute [where sender = 10 and now = 2500 and i = 0 and reason = "''late''"
      and s = demo_vault_active and j = "''esc_1''" and st = demo_completed
      and x = "''completed''" and tnow = 5000 and who = "''buyer1''" and why = "''late''"
      and ev = None]
  note t4 = C4_dispute [where sender = 10 and now = 5601 and i = 0 and reason = "''late''"
      and s = demo_vault_delivered]
  note t5 = C4_dispute [where sender = 10 and now = 5600 and i = 0 and reason = "[]"
      and s = demo_vault_delivered]
  have 1: "e_status (escrowsM demo_vault_disputed 0) = Disputed"
    using t1 r by blast
  have 2: "openDispute 20 2500 0 ''late'' demo_vault_delivered = Inl NotBuyer"
    using t2 nb by blast
  have 3: "openDispute 10 2500 0 ''late'' demo_vault_active = Inl NotDelivered"
    using t3 act by blast
  have 4: "openDispute 10 5601 0 ''late'' demo_vault_delivered = Inl AcceptanceWindowExpired"
    using t4 del late by blast
  have 5: "openDispute 10 5600 0 [] demo_vault_delivered = Inl ReasonRequired"
    using t5 del intime by blast
  have 6: "status_of ''esc_1''
      (snd (disputeEscrow 5000 ''esc_1'' ''seller1'' [] None demo_funded)) = Some ''disputed''"
    using t1 f by blast
  have 7: "disputeEscrow 5000 ''esc_1'' ''buyer1'' ''late'' None demo_completed
     = (Inl (CannotDispute ''completed''), demo_completed)"
    using t3 c by simp
  show ?thesis
    by (intro conjI r 1 2 3 4 5 f 6 7) (simp add: c)
qed

subsection \<open>C5: where a resolved dispute ends\<close>




subsection \<open>C6: the winner of a dispute\<close>

text \<open>
  C6, as the specification states it: \<open>resolveDispute\<close> returns an error for a winner
  that is neither the buyer nor the seller. The off-chain \<open>resolveDispute\<close> rejects no
  winner: with the winner \<open>mallory\<close>, which is neither of the words \<open>buyer\<close> and
  \<open>seller\<close> nor an address of the escrow, it succeeds and releases the payment to the
  seller.
\<close>

theorem C6_counterexample:
  "status_of ''esc_1'' demo_disputed = Some ''disputed'' \<and>
   ''mallory'' \<notin> set [''buyer'', ''seller'', ''buyer1'', ''seller1''] \<and>
   fst (resolveDispute 5000 ''esc_1'' ''ok'' ''mallory'' demo_disputed)
     = Inr \<lparr>r_id = ''esc_1'', r_status = ''completed'',
            r_message = PaymentReleasedToSeller 100\<rparr> \<and>
   status_of ''esc_1'' (snd (resolveDispute 5000 ''esc_1'' ''ok'' ''mallory'' demo_disputed))
     = Some ''completed''"
  by (simp add: demo_disputed_eq engine_defs)

text \<open>
  C6, amended. A resolution never routes the funds of an escrow to a party of the
  arbiter's choice. In the contract the winner is a boolean: every token transfer of a
  successful \<open>resolveDispute\<close> goes to the escrow's buyer when the buyer wins, and to
  the escrow's seller or the fee recipient otherwise. In the off-chain engine no winner is
  rejected: on a disputed escrow the winner \<open>buyer\<close> gives a refund to the buyer, and
  every other winner, whatever the string, gives a payment released to the seller; the
  string is recorded as it was given in the \<open>resolved\<close> event.
\<close>

theorem C6_resolve_targets:
  "(vault_resolveDispute sender now i bw s = Inr s' \<longrightarrow>
      set (map (\<lambda>(f, t, v). t) (drop (length (usdc_calls s)) (usdc_calls s')))
        \<subseteq> (if bw then {e_buyer (escrowsM s i)}
           else {e_seller (escrowsM s i), feeRecipient s})) \<and>
   (getEscrow j st = Some r \<and> status r = ''disputed'' \<and> w \<noteq> ''buyer'' \<longrightarrow>
      fst (resolveDispute tnow j res w st)
        = Inr \<lparr>r_id = j, r_status = ''completed'',
               r_message = PaymentReleasedToSeller (amount_usdc r)\<rparr> \<and>
      escrow_events (snd (resolveDispute tnow j res w st))
        = escrow_events st @
            [\<lparr>ev_id = Suc (length (escrow_events st)), escrow_id = j,
              event_type = ''resolved'', actor = ''trustlayer'',
              data = [(''resolution'', JStr res), (''winner'', JStr w)],
              ev_created_at = sql_now tnow\<rparr>]) \<and>
   (getEscrow j st = Some r \<and> status r = ''disputed'' \<longrightarrow>
      fst (resolveDispute tnow j res ''buyer'' st)
        = Inr \<lparr>r_id = j, r_status = ''refunded'',
               r_message = RefundToBuyer (amount_usdc r)\<rparr>)"
proof (intro conjI impI)
  assume a: "vault_resolveDispute sender now i bw s = Inr s'"
  show "set (map (\<lambda>(f, t, v). t) (drop (length (usdc_calls s)) (usdc_calls s')))
        \<subseteq> (if bw then {e_buyer (escrowsM s i)}
           else {e_seller (escrowsM s i), feeRecipient s})"
    by (rule vault_resolve_targets[OF a])
next
  assume a: "getEscrow j st = Some r \<and> status r = ''disputed'' \<and> w \<noteq> ''buyer''"
  then have g: "getEscrow j st = Some r" and d: "status r = ''disputed''"
    and w: "w \<noteq> ''buyer''" by simp_all
  show "fst (resolveDispute tnow j res w st)
        = Inr \<lparr>r_id = j, r_status = ''completed'',
               r_message = PaymentReleasedToSeller (amount_usdc r)\<rparr>"
    using resolve_disputed[OF g d, of tnow res w] w by simp
  show "escrow_events (snd (resolveDispute tnow j res w st))
        = escrow_events st @
            [\<lparr>ev_id = Suc (length (escrow_events st)), escrow_id = j,
              event_type = ''resolved'', actor = ''trustlayer'',
              data = [(''resolution'', JStr res), (''winner'', JStr w)],
              ev_created_at = sql_now tnow\<rparr>]"
    by (rule resolve_event[OF g d])
next
  assume a: "getEscrow j st = Some r \<and> status r = ''disputed''"
  then have g: "getEscrow j st = Some r" and d: "status r = ''disputed''" by simp_all
  show "fst (resolveDispute tnow j res ''buyer'' st)
        = Inr \<lparr>r_id = j, r_status = ''refunded'',
               r_message = RefundToBuyer (amount_usdc r)\<rparr>"
    using resolve_disputed[OF g d, of tnow res "''buyer''"] by simp
qed

theorem C6_resolve_targets_witness:
  "vault_resolveDispute 1 3000 0 False demo_vault_disputed = Inr demo_vault_resolved_seller \<and>
   set (map (\<lambda>(f, t, v). t)
          (drop (length (usdc_calls demo_vault_disputed))
             (usdc_calls demo_vault_resolved_seller))) = {20, 2} \<and>
   e_seller (escrowsM demo_vault_disputed 0) = 20 \<and> feeRecipient demo_vault_disputed = 2 \<and>
   status_of ''esc_1'' demo_disputed = Some ''disputed'' \<and> ''mallory'' \<noteq> ''buyer'' \<and>
   fst (resolveDispute 5000 ''esc_1'' ''ok'' ''mallory'' demo_disputed)
     = Inr \<lparr>r_id = ''esc_1'', r_status = ''completed'',
            r_message = PaymentReleasedToSeller 100\<rparr> \<and>
   fst (resolveDispute 5000 ''esc_1'' ''ok'' ''buyer'' demo_disputed)
     = Inr \<lparr>r_id = ''esc_1'', r_status = ''refunded'', r_message = RefundToBuyer 100\<rparr>"
proof -
  have rs: "vault_resolveDispute 1 3000 0 False demo_vault_disputed
      = Inr demo_vault_resolved_seller"
    by (rule demo_vault_resolved_seller_reached)
  have calls: "set (map (\<lambda>(f, t, v). t)
          (drop (length (usdc_calls demo_vault_disputed))
             (usdc_calls demo_vault_resolved_seller))) = {20, 2}"
    by (simp add: demo_vault_disputed_def demo_vault_resolved_seller_def)
  have dis: "e_seller (escrowsM demo_vault_disputed 0) = 20 \<and>
      feeRecipient demo_vault_disputed = 2"
    by (simp add: demo_vault_disputed_def)
  have g: "getEscrow ''esc_1'' demo_disputed =
     Some \<lparr>esc_id = ''esc_1'', buyer_address = ''buyer1'', seller_address = ''seller1'',
          amount_usdc = 100, service_description = ''X'', acceptance_criteria = None,
          deadline = 86400000, status = ''disputed'', deposit_tx = Some ''0xabc'',
          release_tx = None, refund_tx = None, dispute_reason = Some ''late'',
          dispute_evidence = None, resolution = None, created_at = 0, updated_at = 3\<rparr>"
    by (rule demo_disputed_row)
  have d: "status_of ''esc_1'' demo_disputed = Some ''disputed''"
    by (simp add: status_of_def g)
  have m: "''mallory'' \<noteq> ''buyer''" by simp
  note t = C6_resolve_targets [where sender = 1 and now = 3000 and i = 0 and bw = False
      and s = demo_vault_disputed and s' = demo_vault_resolved_seller
      and j = "''esc_1''" and st = demo_disputed and tnow = 5000 and res = "''ok''"
      and w = "''mallory''" and r = "\<lparr>esc_id = ''esc_1'', buyer_address = ''buyer1'',
          seller_address = ''seller1'', amount_usdc = 100, service_description = ''X'',
          acceptance_criteria = None, deadline = 86400000, status = ''disputed'',
          deposit_tx = Some ''0xabc'', release_tx = None, refund_tx = None,
          dispute_reason = Some ''late'', dispute_evidence = None, resolution = None,
          created_at = 0, updated_at = 3\<rparr>"]
  have 1: "set (map (\<lambda>(f, t, v). t)
          (drop (length (usdc_calls demo_vault_disputed))
             (usdc_calls demo_vault_resolved_seller)))
       \<subseteq> {e_seller (escrowsM demo_vault_disputed 0), feeRecipient demo_vault_disputed}"
    using t rs by simp
  have 2: "fst (resolveDispute 5000 ''esc_1'' ''ok'' ''mallory'' demo_disputed)
     = Inr \<lparr>r_id = ''esc_1'', r_status = ''completed'',
            r_message = PaymentReleasedToSeller 100\<rparr>"
    using t g by simp
  have 3: "fst (resolveDispute 5000 ''esc_1'' ''ok'' ''buyer'' demo_disputed)
     = Inr \<lparr>r_id = ''esc_1'', r_status = ''refunded'', r_message = RefundToBuyer 100\<rparr>"
    using t g by simp
  show ?thesis
    using rs calls dis d m 2 3 by (intro conjI) simp_all
qed

subsection \<open>C7: a replayed operation is an error\<close>



subsection \<open>C8: what a run of the sweeper selects\<close>




subsection \<open>C9: the timeouts are strict\<close>



subsection \<open>C10: a call that fails leaves the store as it was\<close>

text \<open>
  C10: each of fund, deliver, accept, dispute and resolve, called with an identifier that
  no escrow has, or on an escrow whose status does not permit the operation, raises an
  error and leaves both tables unchanged: the function returns the error together with
  the store it was given, with no row updated and no event appended.
\<close>

theorem C10_failure_atomicity:
  "(getEscrow i st = None \<longrightarrow>
      fundEscrow now i tx st = (Inl EscrowNotFound, st) \<and>
      deliverEscrow now i p st = (Inl EscrowNotFound, st) \<and>
      acceptEscrow now i st = (Inl EscrowNotFound, st) \<and>
      disputeEscrow now i a r e st = (Inl EscrowNotFound, st) \<and>
      resolveDispute now i res w st = (Inl EscrowNotFound, st)) \<and>
   (status_of i st = Some s \<longrightarrow>
      (s \<noteq> ''created'' \<longrightarrow> fundEscrow now i tx st = (Inl (CannotFund s), st)) \<and>
      (s \<noteq> ''funded'' \<longrightarrow> deliverEscrow now i p st = (Inl (CannotDeliver s), st)) \<and>
      (s \<noteq> ''delivered'' \<longrightarrow> acceptEscrow now i st = (Inl (CannotAccept s), st)) \<and>
      (s \<noteq> ''funded'' \<and> s \<noteq> ''delivered'' \<longrightarrow>
         disputeEscrow now i a r e st = (Inl (CannotDispute s), st)) \<and>
      (s \<noteq> ''disputed'' \<longrightarrow> resolveDispute now i res w st = (Inl (CannotResolve s), st)))"
  by (auto simp: fundEscrow_def deliverEscrow_def acceptEscrow_def disputeEscrow_def
        resolveDispute_def status_of_def split: option.splits)

theorem C10_failure_atomicity_witness:
  "getEscrow ''esc_2'' demo_completed = None \<and>
   status_of ''esc_1'' demo_completed = Some ''completed'' \<and>
   fundEscrow 5000 ''esc_2'' None demo_completed = (Inl EscrowNotFound, demo_completed) \<and>
   deliverEscrow 5000 ''esc_2'' None demo_completed = (Inl EscrowNotFound, demo_completed) \<and>
   acceptEscrow 5000 ''esc_2'' demo_completed = (Inl EscrowNotFound, demo_completed) \<and>
   disputeEscrow 5000 ''esc_2'' ''buyer1'' ''late'' None demo_completed
     = (Inl EscrowNotFound, demo_completed) \<and>
   resolveDispute 5000 ''esc_2'' ''ok'' ''buyer'' demo_completed
     = (Inl EscrowNotFound, demo_completed) \<and>
   fundEscrow 5000 ''esc_1'' None demo_completed
     = (Inl (CannotFund ''completed''), demo_completed) \<and>
   deliverEscrow 5000 ''esc_1'' None demo_completed
     = (Inl (CannotDeliver ''completed''), demo_completed) \<and>
   acceptEscrow 5000 ''esc_1'' demo_completed
     = (Inl (CannotAccept ''completed''), demo_completed) \<and>
   disputeEscrow 5000 ''esc_1'' ''buyer1'' ''late'' None demo_completed
     = (Inl (CannotDispute ''completed''), demo_completed) \<and>
   resolveDispute 5000 ''esc_1'' ''ok'' ''buyer'' demo_completed
     = (Inl (CannotResolve ''completed''), demo_completed)"
proof -
  have n: "getEscrow ''esc_2'' demo_completed = None"
    by (simp add: demo_completed_eq getEscrow_def)
  have c: "status_of ''esc_1'' demo_completed = Some ''completed''"
    by (simp add: demo_completed_eq status_of_def getEscrow_def)
  show ?thesis
    using n c
      C10_failure_atomicity [where i = "''esc_2''" and st = demo_completed and now = 5000
        and tx = None and p = None and a = "''buyer1''" and r = "''late''" and e = None
        and res = "''ok''" and w = "''buyer''" and s = "''completed''"]
      C10_failure_atomicity [where i = "''esc_1''" and st = demo_completed and now = 5000
        and tx = None and p = None and a = "''buyer1''" and r = "''late''" and e = None
        and res = "''ok''" and w = "''buyer''" and s = "''completed''"]
    by simp
qed

end
